theory Spec2Isabelle
  imports
    Complex_Main
    "HOL-Library.Char_ord"
    "HOL-Library.List_Lexorder"
    "HOL-Library.Multiset"
begin

section \<open>Data model (shared schema)\<close>

text \<open>
  The tables of the shared schema. A row of \<open>users\<close> and a row of the two transaction
  tables (\<open>expenses\<close> and \<open>gains\<close> are both built from \<open>transactionFields\<close>, so one
  record type serves both). A text is a \<open>string\<close>: the bytes of its UTF-8 encoding,
  compared bytewise, which is the order of code points (the NUL character, which the
  database does not store, is left out of account); its characters are counted as the
  database counts them (\<open>charLength\<close>) or as JavaScript does (\<open>jsLength\<close>). The
  \<open>serial\<close> and \<open>integer\<close> columns are \<open>int\<close>, with the 32-bit range of the column
  checked where a value reaches the database; \<open>amount\<close> (double precision) is kept as
  the number it was given, no floating-point rounding is modelled.
\<close>

record user =
  id_user :: int
  username :: string
  password :: string
  name_user :: string
  role :: string

record txn =
  id_txn :: int
  slNo :: string
  date :: string
  time :: string
  name_txn :: string
  type_txn :: string
  detail :: string
  paymentType :: string
  amount :: real
  createdBy :: int

text \<open>\<open>InsertUser\<close>: the insert schema picks username, password, name and role; role has
  a column default, so it may be absent.\<close>

record insertUser =
  iu_username :: string
  iu_password :: string
  iu_name :: string
  iu_role :: "string option"

text \<open>\<open>InsertExpense\<close> / \<open>InsertGain\<close>: every column but \<open>id\<close>.\<close>

record insertTxn =
  it_slNo :: string
  it_date :: string
  it_time :: string
  it_name :: string
  it_type :: string
  it_detail :: string
  it_paymentType :: string
  it_amount :: real
  it_createdBy :: int

text \<open>The object handed to \<open>.set(...)\<close> by the update operations. The route passes
  \<open>req.body\<close> through unparsed, so any column may be present, \<open>id\<close> included; keys that
  name no column are ignored by the query builder and are not represented.\<close>

record txnUpdate =
  tu_id :: "int option"
  tu_slNo :: "string option"
  tu_date :: "string option"
  tu_time :: "string option"
  tu_name :: "string option"
  tu_type :: "string option"
  tu_detail :: "string option"
  tu_paymentType :: "string option"
  tu_amount :: "real option"
  tu_createdBy :: "int option"

text \<open>The database: the three tables in storage order and the sequence behind each
  \<open>serial\<close> column (the value the next insert receives).\<close>

record database =
  users :: "user list"
  users_id_seq :: int
  expenses :: "txn list"
  expenses_id_seq :: int
  gains :: "txn list"
  gains_id_seq :: int

datatype error = ZodError | QueryError

section \<open>Column domains and constraints\<close>

definition int4 :: "int \<Rightarrow> bool" where
  "int4 i = (- 2147483648 \<le> i \<and> i \<le> 2147483647)"

text \<open>Characters of a text in UTF-8: a byte \<open>10xxxxxx\<close> continues a character, every
  other byte begins one. The database counts characters (code points); JavaScript's
  \<open>length\<close> counts UTF-16 code units, two for a character of four bytes.\<close>

definition isContinuation :: "char \<Rightarrow> bool" where
  "isContinuation c = (128 \<le> (of_char c :: nat) \<and> (of_char c :: nat) < 192)"

definition charLength :: "string \<Rightarrow> nat" where
  "charLength s = length (filter (\<lambda>c. \<not> isContinuation c) s)"

definition jsLength :: "string \<Rightarrow> nat" where
  "jsLength s = charLength s + length (filter (\<lambda>c. 240 \<le> (of_char c :: nat)) s)"

fun dropChars :: "nat \<Rightarrow> string \<Rightarrow> string" where
  "dropChars n [] = []"
| "dropChars n (c # s) =
     (if n = 0 then c # s else dropChars (n - 1) (dropWhile isContinuation s))"

definition takeChars :: "nat \<Rightarrow> string \<Rightarrow> string" where
  "takeChars n s = take (length s - length (dropChars n s)) s"

text \<open>Storing into \<open>varchar(n)\<close>: a value of more than \<open>n\<close> characters is an error
  unless the excess is all spaces, which are cut off.\<close>

definition varchar :: "nat \<Rightarrow> string \<Rightarrow> string option" where
  "varchar n s =
     (if charLength s \<le> n then Some s
      else if list_all (\<lambda>c. c = CHR '' '') (dropChars n s) then Some (takeChars n s)
      else None)"

section \<open>JavaScript helpers\<close>

text \<open>A JavaScript number as \<open>parseInt\<close> can return it: NaN, an integer that is the
  value of a double, or an infinity.\<close>

datatype jsnum = NaN | Num int | PlusInfinity | MinusInfinity

text \<open>The double nearest to a natural number (ties to the even significand of 53
  bits), \<open>None\<close> when it is beyond the finite doubles.\<close>

fun bitLength :: "nat \<Rightarrow> nat" where
  "bitLength n = (if n = 0 then 0 else Suc (bitLength (n div 2)))"

declare bitLength.simps [simp del]

definition roundToDouble :: "nat \<Rightarrow> nat option" where
  "roundToDouble n =
     (if n < 9007199254740992 then Some n
      else let e = bitLength n - 53;
               q = n div 2 ^ e;
               r = n mod 2 ^ e;
               q' = (if 2 ^ (e - 1) < r \<or> (r = 2 ^ (e - 1) \<and> odd q) then q + 1 else q);
               v = q' * 2 ^ e
           in if 2 ^ 1024 \<le> v then None else Some v)"

definition toNumber :: "int \<Rightarrow> jsnum" where
  "toNumber i =
     (case roundToDouble (nat \<bar>i\<bar>) of
        None \<Rightarrow> (if i < 0 then MinusInfinity else PlusInfinity)
      | Some v \<Rightarrow> Num (if i < 0 then - int v else int v))"

text \<open>The white space and line terminators that \<open>parseInt\<close> skips: the six of one
  byte (\<open>isWhiteSpace1\<close>), U+00A0, which is the two bytes C2 A0, and those of three bytes
  (\<open>isWhiteSpace3\<close>): U+1680, U+2000 to U+200A, U+2028, U+2029, U+202F, U+205F, U+3000
  and U+FEFF.\<close>

definition isWhiteSpace1 :: "char \<Rightarrow> bool" where
  "isWhiteSpace1 c = (c = CHR '' '' \<or> c = CHR 0x09 \<or> c = CHR 0x0A \<or> c = CHR 0x0B
                      \<or> c = CHR 0x0C \<or> c = CHR 0x0D)"

definition isWhiteSpace3 :: "char \<Rightarrow> char \<Rightarrow> char \<Rightarrow> bool" where
  "isWhiteSpace3 a b c =
     ((a = CHR 0xE1 \<and> b = CHR 0x9A \<and> c = CHR 0x80)
      \<or> (a = CHR 0xE2 \<and> b = CHR 0x80
          \<and> ((128 \<le> (of_char c :: nat) \<and> (of_char c :: nat) \<le> 138)
              \<or> c = CHR 0xA8 \<or> c = CHR 0xA9 \<or> c = CHR 0xAF))
      \<or> (a = CHR 0xE2 \<and> b = CHR 0x81 \<and> c = CHR 0x9F)
      \<or> (a = CHR 0xE3 \<and> b = CHR 0x80 \<and> c = CHR 0x80)
      \<or> (a = CHR 0xEF \<and> b = CHR 0xBB \<and> c = CHR 0xBF))"

text \<open>The number of bytes of the white space character a string begins with, 0 when it
  begins with none.\<close>

fun whiteSpaceBytes :: "string \<Rightarrow> nat" where
  "whiteSpaceBytes [] = 0"
| "whiteSpaceBytes (a # r) =
     (if isWhiteSpace1 a then 1
      else case r of
             [] \<Rightarrow> 0
           | [b] \<Rightarrow> (if a = CHR 0xC2 \<and> b = CHR 0xA0 then 2 else 0)
           | b # c # _ \<Rightarrow>
               (if a = CHR 0xC2 \<and> b = CHR 0xA0 then 2
                else if isWhiteSpace3 a b c then 3
                else 0))"

function skipWhiteSpace :: "string \<Rightarrow> string" where
  "skipWhiteSpace s =
     (if whiteSpaceBytes s = 0 then s else skipWhiteSpace (drop (whiteSpaceBytes s) s))"
  by pat_completeness auto
termination
proof (relation "measure length")
  show "wf (measure length)"
    by simp
next
  fix s :: string
  assume "whiteSpaceBytes s \<noteq> 0"
  then show "(drop (whiteSpaceBytes s) s, s) \<in> measure length"
    by (cases s) auto
qed

declare skipWhiteSpace.simps [simp del]

definition digitOf :: "char \<Rightarrow> nat option" where
  "digitOf c =
     (let n = (of_char c :: nat) in
      if 48 \<le> n \<and> n \<le> 57 then Some (n - 48)
      else if 97 \<le> n \<and> n \<le> 122 then Some (n - 87)
      else if 65 \<le> n \<and> n \<le> 90 then Some (n - 55)
      else None)"

definition isRadixDigit :: "nat \<Rightarrow> char \<Rightarrow> bool" where
  "isRadixDigit R c = (case digitOf c of Some d \<Rightarrow> d < R | None \<Rightarrow> False)"

definition digitValue :: "char \<Rightarrow> nat" where
  "digitValue c = (case digitOf c of Some d \<Rightarrow> d | None \<Rightarrow> 0)"

definition mathInt :: "nat \<Rightarrow> string \<Rightarrow> nat" where
  "mathInt R Z = foldl (\<lambda>acc c. acc * R + digitValue c) 0 Z"

text \<open>\<open>parseInt(string)\<close> with no radix argument: leading white space is skipped, one
  sign is read, a \<open>0x\<close>/\<open>0X\<close> prefix selects radix 16, and the longest run of digits of
  the radix is the value, as the nearest double; no digit at all gives NaN.\<close>

definition parseDigits :: "int \<Rightarrow> nat \<Rightarrow> string \<Rightarrow> jsnum" where
  "parseDigits sign R S =
     (let Z = takeWhile (isRadixDigit R) S in
      if Z = [] then NaN else toNumber (sign * int (mathInt R Z)))"

definition parseRadix :: "int \<Rightarrow> string \<Rightarrow> jsnum" where
  "parseRadix sign S =
     (case S of
        a # b # rest \<Rightarrow>
          (if a = CHR ''0'' \<and> (b = CHR ''x'' \<or> b = CHR ''X'') then parseDigits sign 16 rest
           else parseDigits sign 10 S)
      | _ \<Rightarrow> parseDigits sign 10 S)"

definition parseInt :: "string \<Rightarrow> jsnum" where
  "parseInt inputString =
     (case skipWhiteSpace inputString of
        [] \<Rightarrow> parseRadix 1 []
      | c # S \<Rightarrow>
          (if c = CHR ''-'' then parseRadix (- 1) S
           else if c = CHR ''+'' then parseRadix 1 S
           else parseRadix 1 (c # S)))"

text \<open>The decimal digit of a number below ten (the only arguments it is given).\<close>

definition digitChar :: "nat \<Rightarrow> char" where
  "digitChar d = ''0123456789'' ! d"

fun natToString :: "nat \<Rightarrow> string" where
  "natToString n = (if n < 10 then [digitChar n] else natToString (n div 10) @ [digitChar (n mod 10)])"

declare natToString.simps [simp del]

text \<open>\<open>String(counter)\<close> for the numbers that occur here: NaN, the infinities, and
  integers below \<open>2^53\<close>, which print as their decimal digits (the counter is read from a
  \<open>varchar(10)\<close> column, so it stays below \<open>2^32\<close>).\<close>

definition String :: "jsnum \<Rightarrow> string" where
  "String x =
     (case x of
        NaN \<Rightarrow> ''NaN''
      | Num i \<Rightarrow> (if i < 0 then CHR ''-'' # natToString (nat (- i)) else natToString (nat i))
      | PlusInfinity \<Rightarrow> ''Infinity''
      | MinusInfinity \<Rightarrow> ''-Infinity'')"

definition padStart :: "nat \<Rightarrow> char \<Rightarrow> string \<Rightarrow> string" where
  "padStart n c s = replicate (n - length s) c @ s"

text \<open>\<open>x + 1\<close>, rounded to a double again.\<close>

definition jsAdd1 :: "jsnum \<Rightarrow> jsnum" where
  "jsAdd1 x =
     (case x of
        NaN \<Rightarrow> NaN
      | Num i \<Rightarrow> toNumber (i + 1)
      | PlusInfinity \<Rightarrow> PlusInfinity
      | MinusInfinity \<Rightarrow> MinusInfinity)"

section \<open>SQL helpers\<close>

text \<open>\<open>substring(s from k)\<close> counts characters, from 1.\<close>

definition substringFrom :: "nat \<Rightarrow> string \<Rightarrow> string" where
  "substringFrom k s = dropChars (k - 1) s"

text \<open>\<open>max\<close> over a text expression: the greatest string in the order of text (here the
  bytewise lexicographic order), NULL (\<open>None\<close>) over no rows.\<close>

fun sqlMax :: "string list \<Rightarrow> string option" where
  "sqlMax [] = None"
| "sqlMax (x # xs) = Some (fold max xs x)"

section \<open>DatabaseStorage: sequential identifiers\<close>

definition nextSlNo :: "string \<Rightarrow> nat \<Rightarrow> txn list \<Rightarrow> string" where
  "nextSlNo prefix k rows =
     (let maxSlNo = sqlMax (map (\<lambda>r. substringFrom k (slNo r)) rows);
          counter = (case maxSlNo of
                       None \<Rightarrow> Num 1
                     | Some m \<Rightarrow> (if m = [] then Num 1 else jsAdd1 (parseInt m)))
      in prefix @ padStart 3 CHR ''0'' (String counter))"

definition getNextExpenseSlNo :: "database \<Rightarrow> string" where
  "getNextExpenseSlNo db = nextSlNo ''EXP'' 4 (expenses db)"

definition getNextGainSlNo :: "database \<Rightarrow> string" where
  "getNextGainSlNo db = nextSlNo ''GN'' 3 (gains db)"

section \<open>DatabaseStorage: users\<close>

text \<open>A query throws when a parameter does not fit its column (\<open>QueryError\<close>); a
  select by id reads the first row of the result.\<close>

definition getUser :: "database \<Rightarrow> int \<Rightarrow> error + user option" where
  "getUser db i =
     (if int4 i then Inr (find (\<lambda>u. id_user u = i) (users db)) else Inl QueryError)"

definition getUserByUsername :: "database \<Rightarrow> string \<Rightarrow> user option" where
  "getUserByUsername db n = find (\<lambda>u. username u = n) (users db)"

text \<open>\<open>createUser\<close>: \<open>role: insertUser.role || 'staff'\<close>, then the insert. The insert
  draws the id from the sequence (which stays advanced when the insert fails) and is
  rejected when the primary key or the unique username is already taken.\<close>

definition createUser :: "database \<Rightarrow> insertUser \<Rightarrow> (error + user) \<times> database" where
  "createUser db insertUser =
     (let userRole = (case iu_role insertUser of
                        None \<Rightarrow> ''staff''
                      | Some r \<Rightarrow> (if r = [] then ''staff'' else r));
          i = users_id_seq db;
          db' = db\<lparr>users_id_seq := i + 1\<rparr>;
          row = \<lparr>id_user = i, username = iu_username insertUser,
                 password = iu_password insertUser, name_user = iu_name insertUser,
                 role = userRole\<rparr>
      in if \<not> int4 i \<or> list_ex (\<lambda>u. id_user u = i \<or> username u = username row) (users db)
         then (Inl QueryError, db')
         else (Inr row, db'\<lparr>users := users db @ [row]\<rparr>))"

definition initializeDefaultUsers :: "database \<Rightarrow> database" where
  "initializeDefaultUsers db =
     (let db1 = (case getUserByUsername db ''admin'' of
                   None \<Rightarrow> snd (createUser db
                             \<lparr>iu_username = ''admin'', iu_password = ''786786'',
                              iu_name = ''Admin User'', iu_role = Some ''admin''\<rparr>)
                 | Some _ \<Rightarrow> db)
      in (case getUserByUsername db1 ''staff1'' of
            None \<Rightarrow> snd (createUser db1
                      \<lparr>iu_username = ''staff1'', iu_password = ''1234'',
                       iu_name = ''Staff User'', iu_role = Some ''staff''\<rparr>)
          | Some _ \<Rightarrow> db1))"

section \<open>DatabaseStorage: expenses and gains\<close>

text \<open>The expense and the gain operations are the same code over two tables; they are
  written once, over the kind.\<close>

datatype kind = Expense | Gain

fun table :: "kind \<Rightarrow> database \<Rightarrow> txn list" where
  "table Expense db = expenses db"
| "table Gain db = gains db"

fun setTable :: "kind \<Rightarrow> txn list \<Rightarrow> database \<Rightarrow> database" where
  "setTable Expense rows db = db\<lparr>expenses := rows\<rparr>"
| "setTable Gain rows db = db\<lparr>gains := rows\<rparr>"

fun idSeq :: "kind \<Rightarrow> database \<Rightarrow> int" where
  "idSeq Expense db = expenses_id_seq db"
| "idSeq Gain db = gains_id_seq db"

fun setIdSeq :: "kind \<Rightarrow> int \<Rightarrow> database \<Rightarrow> database" where
  "setIdSeq Expense i db = db\<lparr>expenses_id_seq := i\<rparr>"
| "setIdSeq Gain i db = db\<lparr>gains_id_seq := i\<rparr>"

text \<open>\<open>db.insert(table).values(v).returning()\<close>: the row as stored, or the error of a
  value outside its column or of a taken primary key or \<open>sl_no\<close>.\<close>

definition insertRow :: "int \<Rightarrow> txn list \<Rightarrow> insertTxn \<Rightarrow> error + txn" where
  "insertRow i rows v =
     (case (varchar 10 (it_slNo v), varchar 10 (it_date v), varchar 10 (it_time v)) of
        (Some s, Some d, Some t) \<Rightarrow>
          (if \<not> int4 i \<or> \<not> int4 (it_createdBy v)
              \<or> list_ex (\<lambda>r. id_txn r = i \<or> slNo r = s) rows
           then Inl QueryError
           else Inr \<lparr>id_txn = i, slNo = s, date = d, time = t, name_txn = it_name v,
                     type_txn = it_type v, detail = it_detail v,
                     paymentType = it_paymentType v, amount = it_amount v,
                     createdBy = it_createdBy v\<rparr>)
      | _ \<Rightarrow> Inl QueryError)"

definition createTxn :: "kind \<Rightarrow> database \<Rightarrow> insertTxn \<Rightarrow> (error + txn) \<times> database" where
  "createTxn k db v =
     (let i = idSeq k db; db' = setIdSeq k (i + 1) db
      in case insertRow i (table k db) v of
           Inl e \<Rightarrow> (Inl e, db')
         | Inr row \<Rightarrow> (Inr row, setTable k (table k db @ [row]) db'))"

definition createExpense :: "database \<Rightarrow> insertTxn \<Rightarrow> (error + txn) \<times> database" where
  "createExpense = createTxn Expense"

definition createGain :: "database \<Rightarrow> insertTxn \<Rightarrow> (error + txn) \<times> database" where
  "createGain = createTxn Gain"

text \<open>\<open>orderBy(desc(date))\<close>: the rows by descending \<open>date\<close>, a text column. The order
  among rows of equal date is the database's choice; the model fixes one.\<close>

definition getTxns :: "kind \<Rightarrow> database \<Rightarrow> txn list" where
  "getTxns k db = rev (sort_key date (table k db))"

definition getExpenses :: "database \<Rightarrow> txn list" where
  "getExpenses = getTxns Expense"

definition getGains :: "database \<Rightarrow> txn list" where
  "getGains = getTxns Gain"

definition getTxn :: "kind \<Rightarrow> database \<Rightarrow> int \<Rightarrow> error + txn option" where
  "getTxn k db i =
     (if int4 i then Inr (find (\<lambda>r. id_txn r = i) (table k db)) else Inl QueryError)"


definition getGain :: "database \<Rightarrow> int \<Rightarrow> error + txn option" where
  "getGain = getTxn Gain"

text \<open>\<open>.set(update)\<close>: the columns present in the object replace the row's.\<close>

definition noValues :: "txnUpdate \<Rightarrow> bool" where
  "noValues u =
     (tu_id u = None \<and> tu_slNo u = None \<and> tu_date u = None \<and> tu_time u = None
      \<and> tu_name u = None \<and> tu_type u = None \<and> tu_detail u = None
      \<and> tu_paymentType u = None \<and> tu_amount u = None \<and> tu_createdBy u = None)"

definition orElse :: "'a option \<Rightarrow> 'a \<Rightarrow> 'a" where
  "orElse v d = (case v of None \<Rightarrow> d | Some x \<Rightarrow> x)"

definition setColumns :: "txnUpdate \<Rightarrow> txn \<Rightarrow> txn" where
  "setColumns u r =
     \<lparr>id_txn = orElse (tu_id u) (id_txn r), slNo = orElse (tu_slNo u) (slNo r),
      date = orElse (tu_date u) (date r), time = orElse (tu_time u) (time r),
      name_txn = orElse (tu_name u) (name_txn r), type_txn = orElse (tu_type u) (type_txn r),
      detail = orElse (tu_detail u) (detail r),
      paymentType = orElse (tu_paymentType u) (paymentType r),
      amount = orElse (tu_amount u) (amount r),
      createdBy = orElse (tu_createdBy u) (createdBy r)\<rparr>"

definition intParamsOk :: "txnUpdate \<Rightarrow> bool" where
  "intParamsOk u =
     ((case tu_id u of None \<Rightarrow> True | Some i \<Rightarrow> int4 i)
      \<and> (case tu_createdBy u of None \<Rightarrow> True | Some i \<Rightarrow> int4 i))"

definition storeVarchar :: "nat \<Rightarrow> string option \<Rightarrow> string option option" where
  "storeVarchar n v =
     (case v of None \<Rightarrow> Some None | Some s \<Rightarrow> map_option Some (varchar n s))"

definition storeUpdate :: "txnUpdate \<Rightarrow> txnUpdate option" where
  "storeUpdate u =
     (case (storeVarchar 10 (tu_slNo u), storeVarchar 10 (tu_date u),
            storeVarchar 10 (tu_time u)) of
        (Some s, Some d, Some t) \<Rightarrow> Some (u\<lparr>tu_slNo := s, tu_date := d, tu_time := t\<rparr>)
      | _ \<Rightarrow> None)"

text \<open>The primary key or the \<open>sl_no\<close> of the row \<open>r'\<close> belongs to a row other than
  the one with id \<open>i\<close>.\<close>

definition takenByOther :: "int \<Rightarrow> txn \<Rightarrow> txn list \<Rightarrow> bool" where
  "takenByOther i r' rows =
     list_ex (\<lambda>x. id_txn x \<noteq> i \<and> (id_txn x = id_txn r' \<or> slNo x = slNo r')) rows"

text \<open>\<open>db.update(table).set(u).where(eq(table.id, i)).returning()\<close>, destructured to
  its first row. An object with nothing to set is refused by the query builder before
  any statement is sent (an UPDATE needs at least one assignment), so the call throws;
  an integer parameter outside its column or a text value that does not fit its column
  throws, whether or not a row matches; with no matching row nothing changes and the
  result is \<open>undefined\<close> (\<open>None\<close>); otherwise the row is rewritten, unless the new
  primary key or \<open>sl_no\<close> belongs to another row.\<close>

definition updateRows :: "int \<Rightarrow> txnUpdate \<Rightarrow> txn list \<Rightarrow> error + (txn option \<times> txn list)" where
  "updateRows i u rows =
     (if noValues u then Inl QueryError
      else if \<not> int4 i \<or> \<not> intParamsOk u then Inl QueryError
      else case storeUpdate u of
             None \<Rightarrow> Inl QueryError
           | Some u' \<Rightarrow>
               (case find (\<lambda>r. id_txn r = i) rows of
                  None \<Rightarrow> Inr (None, rows)
                | Some r \<Rightarrow>
                    (let r' = setColumns u' r in
                     if takenByOther i r' rows then Inl QueryError
                     else Inr (Some r', map (\<lambda>x. if id_txn x = i then r' else x) rows))))"

definition updateTxn :: "kind \<Rightarrow> database \<Rightarrow> int \<Rightarrow> txnUpdate \<Rightarrow> (error + txn option) \<times> database" where
  "updateTxn k db i u =
     (case updateRows i u (table k db) of
        Inl e \<Rightarrow> (Inl e, db)
      | Inr (r, rows') \<Rightarrow> (Inr r, setTable k rows' db))"


definition updateGain :: "database \<Rightarrow> int \<Rightarrow> txnUpdate \<Rightarrow> (error + txn option) \<times> database" where
  "updateGain = updateTxn Gain"

text \<open>\<open>db.delete(table).where(eq(table.id, i)).returning(...)\<close>: whether a row went.\<close>

definition deleteTxn :: "kind \<Rightarrow> database \<Rightarrow> int \<Rightarrow> (error + bool) \<times> database" where
  "deleteTxn k db i =
     (if \<not> int4 i then (Inl QueryError, db)
      else (Inr (list_ex (\<lambda>r. id_txn r = i) (table k db)),
            setTable k (filter (\<lambda>r. id_txn r \<noteq> i) (table k db)) db))"

definition deleteExpense :: "database \<Rightarrow> int \<Rightarrow> (error + bool) \<times> database" where
  "deleteExpense = deleteTxn Expense"

definition deleteGain :: "database \<Rightarrow> int \<Rightarrow> (error + bool) \<times> database" where
  "deleteGain = deleteTxn Gain"

section \<open>Routes\<close>

text \<open>The server as one client sees it: the database and that client's session
  (\<open>req.session.userId\<close>).\<close>

record server =
  storage :: database
  sessionUserId :: "int option"

text \<open>A user row as the JSON object the driver returns, in column order, and the rest
  destructuring \<open>const { password, ...userInfo } = user\<close>.\<close>

datatype json = JNum int | JStr string

type_synonym jobject = "(string \<times> json) list"

definition userObject :: "user \<Rightarrow> jobject" where
  "userObject u =
     [(''id'', JNum (id_user u)), (''username'', JStr (username u)),
      (''password'', JStr (password u)), (''name'', JStr (name_user u)),
      (''role'', JStr (role u))]"

definition omitKey :: "string \<Rightarrow> jobject \<Rightarrow> jobject" where
  "omitKey key obj = filter (\<lambda>(k, v). k \<noteq> key) obj"

text \<open>Request bodies: each field is a value of the column's type or absent.\<close>

record loginBody =
  lb_username :: "string option"
  lb_password :: "string option"

record userBody =
  ub_username :: "string option"
  ub_password :: "string option"
  ub_name :: "string option"
  ub_role :: "string option"

record txnBody =
  tb_slNo :: "string option"
  tb_date :: "string option"
  tb_time :: "string option"
  tb_name :: "string option"
  tb_type :: "string option"
  tb_detail :: "string option"
  tb_paymentType :: "string option"
  tb_amount :: "real option"
  tb_createdBy :: "int option"

text \<open>Response bodies. The text of a validation message is derived from the schema
  violation and is not modelled. \<open>Uncaught\<close>: an exception left the middleware, no
  response was written by the route's code.\<close>

datatype body =
    Message string
  | ValidationMessage
  | UserInfo jobject
  | Row txn
  | Rows "txn list"
  | SlNoBody string
  | Undefined

datatype outcome = Response nat body | Uncaught

text \<open>\<open>insertUserSchema.parse\<close>: username, password and name are required strings.\<close>

definition insertUserSchema :: "userBody \<Rightarrow> error + insertUser" where
  "insertUserSchema b =
     (case ub_username b of None \<Rightarrow> Inl ZodError | Some u \<Rightarrow>
      (case ub_password b of None \<Rightarrow> Inl ZodError | Some p \<Rightarrow>
       (case ub_name b of None \<Rightarrow> Inl ZodError | Some n \<Rightarrow>
          Inr \<lparr>iu_username = u, iu_password = p, iu_name = n, iu_role = ub_role b\<rparr>)))"

text \<open>\<open>insertExpenseSchema.parse\<close> / \<open>insertGainSchema.parse\<close>: every column but \<open>id\<close> is
  required; the \<open>varchar(10)\<close> columns admit a string of length at most 10, the double
  precision column a number from \<open>-2^47\<close> to \<open>2^47 - 1\<close>, the integer column a 32-bit
  integer.\<close>

definition insertTxnSchema :: "txnBody \<Rightarrow> error + insertTxn" where
  "insertTxnSchema b =
     (case tb_slNo b of None \<Rightarrow> Inl ZodError | Some sl \<Rightarrow>
      (case tb_date b of None \<Rightarrow> Inl ZodError | Some d \<Rightarrow>
       (case tb_time b of None \<Rightarrow> Inl ZodError | Some t \<Rightarrow>
        (case tb_name b of None \<Rightarrow> Inl ZodError | Some n \<Rightarrow>
         (case tb_type b of None \<Rightarrow> Inl ZodError | Some ty \<Rightarrow>
          (case tb_detail b of None \<Rightarrow> Inl ZodError | Some de \<Rightarrow>
           (case tb_paymentType b of None \<Rightarrow> Inl ZodError | Some pt \<Rightarrow>
            (case tb_amount b of None \<Rightarrow> Inl ZodError | Some am \<Rightarrow>
             (case tb_createdBy b of None \<Rightarrow> Inl ZodError | Some cb \<Rightarrow>
                (if 10 < jsLength sl \<or> 10 < jsLength d \<or> 10 < jsLength t
                    \<or> am < - 140737488355328 \<or> 140737488355327 < am \<or> \<not> int4 cb
                 then Inl ZodError
                 else Inr \<lparr>it_slNo = sl, it_date = d, it_time = t, it_name = n, it_type = ty,
                           it_detail = de, it_paymentType = pt, it_amount = am,
                           it_createdBy = cb\<rparr>))))))))))"

subsection \<open>Middleware\<close>

definition authenticate :: "server \<Rightarrow> outcome + user" where
  "authenticate s =
     (case sessionUserId s of
        None \<Rightarrow> Inl (Response 401 (Message ''Not authenticated''))
      | Some uid \<Rightarrow>
          (if uid = 0 then Inl (Response 401 (Message ''Not authenticated''))
           else case getUser (storage s) uid of
                  Inl e \<Rightarrow> Inl Uncaught
                | Inr None \<Rightarrow> Inl (Response 401 (Message ''User not found''))
                | Inr (Some u) \<Rightarrow> Inr u))"

definition requireAdmin :: "user \<Rightarrow> outcome option" where
  "requireAdmin u =
     (if role u \<noteq> ''admin'' then Some (Response 403 (Message ''Forbidden: Admin access required''))
      else None)"

text \<open>The chain \<open>authenticate, requireAdmin\<close> in front of a route.\<close>

definition authenticateAdmin :: "server \<Rightarrow> outcome + user" where
  "authenticateAdmin s =
     (case authenticate s of
        Inl out \<Rightarrow> Inl out
      | Inr u \<Rightarrow> (case requireAdmin u of Some out \<Rightarrow> Inl out | None \<Rightarrow> Inr u))"

subsection \<open>Authentication and user routes\<close>

definition POST_login :: "loginBody \<Rightarrow> server \<Rightarrow> outcome \<times> server" where
  "POST_login b s =
     (case lb_username b of
        None \<Rightarrow> (Response 400 (Message ''Username and password are required''), s)
      | Some u \<Rightarrow>
      (case lb_password b of
        None \<Rightarrow> (Response 400 (Message ''Username and password are required''), s)
      | Some p \<Rightarrow>
          (if u = [] \<or> p = [] then (Response 400 (Message ''Username and password are required''), s)
           else case getUserByUsername (storage s) u of
                  None \<Rightarrow> (Response 401 (Message ''Invalid username or password''), s)
                | Some usr \<Rightarrow>
                    (if password usr \<noteq> p
                     then (Response 401 (Message ''Invalid username or password''), s)
                     else (Response 200 (UserInfo (omitKey ''password'' (userObject usr))),
                           s\<lparr>sessionUserId := Some (id_user usr)\<rparr>)))))"

definition POST_logout :: "server \<Rightarrow> outcome \<times> server" where
  "POST_logout s = (Response 200 (Message ''Logged out successfully''), s\<lparr>sessionUserId := None\<rparr>)"

definition GET_users_me :: "server \<Rightarrow> outcome \<times> server" where
  "GET_users_me s =
     (case authenticate s of
        Inl out \<Rightarrow> (out, s)
      | Inr u \<Rightarrow> (Response 200 (UserInfo (omitKey ''password'' (userObject u))), s))"

definition POST_users :: "userBody \<Rightarrow> server \<Rightarrow> outcome \<times> server" where
  "POST_users b s =
     (case authenticateAdmin s of
        Inl out \<Rightarrow> (out, s)
      | Inr _ \<Rightarrow>
          (case insertUserSchema b of
             Inl e \<Rightarrow> (Response 400 ValidationMessage, s)
           | Inr userData \<Rightarrow>
               (case getUserByUsername (storage s) (iu_username userData) of
                  Some existingUser \<Rightarrow> (Response 400 (Message ''Username already exists''), s)
                | None \<Rightarrow>
                    (case createUser (storage s) userData of
                       (Inl e, db') \<Rightarrow>
                         (Response 500 (Message ''Failed to create user''), s\<lparr>storage := db'\<rparr>)
                     | (Inr newUser, db') \<Rightarrow>
                         (Response 201 (UserInfo (omitKey ''password'' (userObject newUser))),
                          s\<lparr>storage := db'\<rparr>)))))"

subsection \<open>Expense and gain routes\<close>

fun noun :: "kind \<Rightarrow> string" where
  "noun Expense = ''expense''"
| "noun Gain = ''gain''"

fun Noun :: "kind \<Rightarrow> string" where
  "Noun Expense = ''Expense''"
| "Noun Gain = ''Gain''"

fun getNextSlNo :: "kind \<Rightarrow> database \<Rightarrow> string" where
  "getNextSlNo Expense db = getNextExpenseSlNo db"
| "getNextSlNo Gain db = getNextGainSlNo db"

definition GET_txns :: "kind \<Rightarrow> server \<Rightarrow> outcome \<times> server" where
  "GET_txns k s =
     (case authenticate s of
        Inl out \<Rightarrow> (out, s)
      | Inr _ \<Rightarrow> (Response 200 (Rows (getTxns k (storage s))), s))"

definition GET_next_slno :: "kind \<Rightarrow> server \<Rightarrow> outcome \<times> server" where
  "GET_next_slno k s =
     (case authenticate s of
        Inl out \<Rightarrow> (out, s)
      | Inr _ \<Rightarrow> (Response 200 (SlNoBody (getNextSlNo k (storage s))), s))"

text \<open>\<open>POST /api/expenses\<close>, \<open>POST /api/gains\<close>: the body is parsed with \<open>createdBy\<close>
  replaced by the authenticated user's id.\<close>

definition POST_txn :: "kind \<Rightarrow> txnBody \<Rightarrow> server \<Rightarrow> outcome \<times> server" where
  "POST_txn k b s =
     (case authenticate s of
        Inl out \<Rightarrow> (out, s)
      | Inr usr \<Rightarrow>
          (case insertTxnSchema (b\<lparr>tb_createdBy := Some (id_user usr)\<rparr>) of
             Inl e \<Rightarrow> (Response 400 ValidationMessage, s)
           | Inr txnData \<Rightarrow>
               (case createTxn k (storage s) txnData of
                  (Inl e, db') \<Rightarrow>
                    (Response 500 (Message (''Failed to create '' @ noun k)), s\<lparr>storage := db'\<rparr>)
                | (Inr newTxn, db') \<Rightarrow> (Response 201 (Row newTxn), s\<lparr>storage := db'\<rparr>))))"

definition PUT_txn :: "kind \<Rightarrow> string \<Rightarrow> txnUpdate \<Rightarrow> server \<Rightarrow> outcome \<times> server" where
  "PUT_txn k idParam b s =
     (case authenticateAdmin s of
        Inl out \<Rightarrow> (out, s)
      | Inr _ \<Rightarrow>
          (case parseInt idParam of
             NaN \<Rightarrow> (Response 400 (Message (''Invalid '' @ noun k @ '' ID'')), s)
           | PlusInfinity \<Rightarrow> (Response 500 (Message (''Failed to update '' @ noun k)), s)
           | MinusInfinity \<Rightarrow> (Response 500 (Message (''Failed to update '' @ noun k)), s)
           | Num i \<Rightarrow>
               (case getTxn k (storage s) i of
                  Inl e \<Rightarrow> (Response 500 (Message (''Failed to update '' @ noun k)), s)
                | Inr None \<Rightarrow> (Response 404 (Message (Noun k @ '' not found'')), s)
                | Inr (Some _) \<Rightarrow>
                    (case updateTxn k (storage s) i b of
                       (Inl e, db') \<Rightarrow>
                         (Response 500 (Message (''Failed to update '' @ noun k)), s\<lparr>storage := db'\<rparr>)
                     | (Inr None, db') \<Rightarrow> (Response 200 Undefined, s\<lparr>storage := db'\<rparr>)
                     | (Inr (Some updated), db') \<Rightarrow>
                         (Response 200 (Row updated), s\<lparr>storage := db'\<rparr>)))))"

definition DELETE_txn :: "kind \<Rightarrow> string \<Rightarrow> server \<Rightarrow> outcome \<times> server" where
  "DELETE_txn k idParam s =
     (case authenticateAdmin s of
        Inl out \<Rightarrow> (out, s)
      | Inr _ \<Rightarrow>
          (case parseInt idParam of
             NaN \<Rightarrow> (Response 400 (Message (''Invalid '' @ noun k @ '' ID'')), s)
           | PlusInfinity \<Rightarrow> (Response 500 (Message (''Failed to delete '' @ noun k)), s)
           | MinusInfinity \<Rightarrow> (Response 500 (Message (''Failed to delete '' @ noun k)), s)
           | Num i \<Rightarrow>
               (case getTxn k (storage s) i of
                  Inl e \<Rightarrow> (Response 500 (Message (''Failed to delete '' @ noun k)), s)
                | Inr None \<Rightarrow> (Response 404 (Message (Noun k @ '' not found'')), s)
                | Inr (Some _) \<Rightarrow>
                    (case deleteTxn k (storage s) i of
                       (Inl e, db') \<Rightarrow>
                         (Response 500 (Message (''Failed to delete '' @ noun k)), s\<lparr>storage := db'\<rparr>)
                     | (Inr _, db') \<Rightarrow>
                         (Response 200 (Message (Noun k @ '' deleted successfully'')),
                          s\<lparr>storage := db'\<rparr>)))))"

subsection \<open>The registered routes\<close>

datatype request =
    PostLogin loginBody
  | PostLogout
  | GetUsersMe
  | PostUsers userBody
  | GetTxns kind
  | GetNextSlNo kind
  | PostTxn kind txnBody
  | PutTxn kind string txnUpdate
  | DeleteTxn kind string

fun registerRoutes :: "request \<Rightarrow> server \<Rightarrow> outcome \<times> server" where
  "registerRoutes (PostLogin b) s = POST_login b s"
| "registerRoutes PostLogout s = POST_logout s"
| "registerRoutes GetUsersMe s = GET_users_me s"
| "registerRoutes (PostUsers b) s = POST_users b s"
| "registerRoutes (GetTxns k) s = GET_txns k s"
| "registerRoutes (GetNextSlNo k) s = GET_next_slno k s"
| "registerRoutes (PostTxn k b) s = POST_txn k b s"
| "registerRoutes (PutTxn k idParam b) s = PUT_txn k idParam b s"
| "registerRoutes (DeleteTxn k idParam) s = DELETE_txn k idParam s"

section \<open>Start-up state and sample data\<close>

text \<open>The database before the first start, the database once the default users are
  seeded, and a client with no session, with the seeded administrator's session and
  with the seeded staff member's session.\<close>

definition emptyDatabase :: database where
  "emptyDatabase =
     \<lparr>users = [], users_id_seq = 1, expenses = [], expenses_id_seq = 1,
      gains = [], gains_id_seq = 1\<rparr>"

definition seededDatabase :: database where
  "seededDatabase = initializeDefaultUsers emptyDatabase"

definition anonymousServer :: server where
  "anonymousServer = \<lparr>storage = seededDatabase, sessionUserId = None\<rparr>"

definition adminServer :: server where
  "adminServer = \<lparr>storage = seededDatabase, sessionUserId = Some 1\<rparr>"

definition staffServer :: server where
  "staffServer = \<lparr>storage = seededDatabase, sessionUserId = Some 2\<rparr>"

definition sampleBody :: "string \<Rightarrow> txnBody" where
  "sampleBody sl =
     \<lparr>tb_slNo = Some sl, tb_date = Some ''2024-05-01'', tb_time = Some ''10:30'',
      tb_name = Some ''Paper'', tb_type = Some ''Office'', tb_detail = Some ''A4 sheets'',
      tb_paymentType = Some ''Cash'', tb_amount = Some 250, tb_createdBy = None\<rparr>"

definition sampleRow :: "int \<Rightarrow> string \<Rightarrow> string \<Rightarrow> txn" where
  "sampleRow i sl d =
     \<lparr>id_txn = i, slNo = sl, date = d, time = ''10:30'', name_txn = ''Paper'',
      type_txn = ''Office'', detail = ''A4 sheets'', paymentType = ''Cash'', amount = 250,
      createdBy = 2\<rparr>"

definition emptyUpdate :: txnUpdate where
  "emptyUpdate =
     \<lparr>tu_id = None, tu_slNo = None, tu_date = None, tu_time = None, tu_name = None,
      tu_type = None, tu_detail = None, tu_paymentType = None, tu_amount = None,
      tu_createdBy = None\<rparr>"

section \<open>Properties of requests, responses and identifiers\<close>

text \<open>The routes registered behind \<open>authenticate, requireAdmin\<close>, the routes whose
  success response carries a user, and the success responses (status 2xx).\<close>

fun adminOnly :: "request \<Rightarrow> bool" where
  "adminOnly (PutTxn k idParam b) = True"
| "adminOnly (DeleteTxn k idParam) = True"
| "adminOnly (PostUsers b) = True"
| "adminOnly _ = False"

fun returnsUser :: "request \<Rightarrow> bool" where
  "returnsUser (PostLogin b) = True"
| "returnsUser GetUsersMe = True"
| "returnsUser (PostUsers b) = True"
| "returnsUser _ = False"

fun success :: "outcome \<Rightarrow> bool" where
  "success (Response c b) = (200 \<le> c \<and> c < 300)"
| "success Uncaught = False"

text \<open>The display format of the data model, \<open>{PREFIX}{counter:03d}\<close>: the prefix, then
  at least three decimal digits, with no leading zero beyond the third digit.\<close>

definition slNoFormat :: "string \<Rightarrow> string \<Rightarrow> bool" where
  "slNoFormat prefix s =
     (let d = drop (length prefix) s in
      take (length prefix) s = prefix \<and> 3 \<le> length d \<and> list_all (isRadixDigit 10) d
      \<and> (if 3 < length d then hd d \<noteq> CHR ''0'' else True))"

text \<open>An update object whose text values fit their \<open>varchar(10)\<close> columns as they
  are.\<close>

definition fitsColumns :: "txnUpdate \<Rightarrow> bool" where
  "fitsColumns u =
     ((case tu_slNo u of None \<Rightarrow> True | Some v \<Rightarrow> charLength v \<le> 10)
      \<and> (case tu_date u of None \<Rightarrow> True | Some v \<Rightarrow> charLength v \<le> 10)
      \<and> (case tu_time u of None \<Rightarrow> True | Some v \<Rightarrow> charLength v \<le> 10))"

text \<open>A decimal numeral followed by more text, as an id parameter: the digits \<open>ds\<close>, then
  \<open>t\<close>, which does not go on with a digit.\<close>

definition numeralThenText :: "string \<Rightarrow> string \<Rightarrow> bool" where
  "numeralThenText ds t =
     (ds \<noteq> [] \<and> list_all (isRadixDigit 10) ds
      \<and> (case t of [] \<Rightarrow> True | c # _ \<Rightarrow> \<not> isRadixDigit 10 c))"

text \<open>Such a parameter that begins with \<open>0x\<close> or \<open>0X\<close>.\<close>

definition hexPrefixed :: "string \<Rightarrow> string \<Rightarrow> bool" where
  "hexPrefixed ds t =
     (ds = ''0'' \<and> (case t of [] \<Rightarrow> False | c # _ \<Rightarrow> c = CHR ''x'' \<or> c = CHR ''X''))"

text \<open>What follows the prefix \<open>0x\<close> in an id parameter: the hexadecimal digits \<open>hs\<close>,
  none when \<open>hs\<close> is empty, then \<open>t\<close>, which does not go on with a hexadecimal digit.\<close>

definition hexDigitsThenText :: "string \<Rightarrow> string \<Rightarrow> bool" where
  "hexDigitsThenText hs t =
     (list_all (isRadixDigit 16) hs
      \<and> (case t of [] \<Rightarrow> True | c # _ \<Rightarrow> \<not> isRadixDigit 16 c))"

section \<open>Further sample states\<close>

text \<open>The administrator's and the staff member's client once the staff member has
  created the first expense, \<open>EXP001\<close>.\<close>

definition firstExpenseDatabase :: database where
  "firstExpenseDatabase = storage (snd (POST_txn Expense (sampleBody ''EXP001'') staffServer))"

definition adminServer1 :: server where
  "adminServer1 = \<lparr>storage = firstExpenseDatabase, sessionUserId = Some 1\<rparr>"

definition staffServer1 :: server where
  "staffServer1 = \<lparr>storage = firstExpenseDatabase, sessionUserId = Some 2\<rparr>"

text \<open>The server after the administrator has created a user whose password is the
  empty string, which the insert schema accepts.\<close>

text \<open>The administrator's client once the staff member has created a second expense,
  \<open>EXP002\<close>.\<close>

definition adminServer2 :: server where
  "adminServer2 =
     \<lparr>storage = storage (snd (POST_txn Expense (sampleBody ''EXP002'') staffServer1)),
      sessionUserId = Some 1\<rparr>"

text \<open>The staff member's client once the administrator has given expense 1 the id 2,
  the id the sequence hands out next.\<close>

definition renumberedServer :: server where
  "renumberedServer =
     \<lparr>storage = storage (snd (PUT_txn Expense ''1'' (emptyUpdate\<lparr>tu_id := Some 2\<rparr>) adminServer1)),
      sessionUserId = Some 2\<rparr>"

definition emptyPasswordBody :: userBody where
  "emptyPasswordBody =
     \<lparr>ub_username = Some ''bob'', ub_password = Some [], ub_name = Some ''Bob'',
      ub_role = None\<rparr>"

definition emptyPasswordServer :: server where
  "emptyPasswordServer = snd (POST_users emptyPasswordBody adminServer)"

text \<open>The staff member's client once an expense \<open>EXP999\<close> is stored, and once the
  expense \<open>EXP1000\<close> is stored after it.\<close>

definition expense999Server :: server where
  "expense999Server = snd (POST_txn Expense (sampleBody ''EXP999'') staffServer)"

definition expense1000Server :: server where
  "expense1000Server = snd (POST_txn Expense (sampleBody ''EXP1000'') expense999Server)"

definition blankRoleUser :: insertUser where
  "blankRoleUser =
     \<lparr>iu_username = ''bob'', iu_password = ''secret'', iu_name = ''Bob'', iu_role = Some []\<rparr>"

section \<open>Evaluation rules\<close>

lemma replicate_small: "replicate 2 c = [c, c]" "replicate 3 c = [c, c, c]"
  by (simp_all add: numeral_2_eq_2 numeral_3_eq_3)

lemmas js_defs = parseInt_def parseRadix_def parseDigits_def isWhiteSpace1_def
  isWhiteSpace3_def skipWhiteSpace.simps toNumber_def roundToDouble_def
  isRadixDigit_def digitOf_def mathInt_def digitValue_def String_def natToString.simps
  digitChar_def padStart_def jsAdd1_def substringFrom_def max_def Let_def replicate_small
  isContinuation_def charLength_def jsLength_def takeChars_def

lemmas storage_defs = getUser_def getUserByUsername_def createUser_def
  initializeDefaultUsers_def insertRow_def createTxn_def getTxns_def getTxn_def noValues_def
  orElse_def setColumns_def intParamsOk_def storeVarchar_def storeUpdate_def updateRows_def
  takenByOther_def
  updateTxn_def deleteTxn_def int4_def varchar_def nextSlNo_def getNextExpenseSlNo_def
  getNextGainSlNo_def

lemmas route_defs = userObject_def omitKey_def insertUserSchema_def insertTxnSchema_def
  authenticate_def requireAdmin_def authenticateAdmin_def POST_login_def POST_logout_def
  GET_users_me_def POST_users_def GET_txns_def GET_next_slno_def POST_txn_def PUT_txn_def
  DELETE_txn_def

lemmas sample_defs = emptyDatabase_def anonymousServer_def adminServer_def staffServer_def
  sampleBody_def sampleRow_def emptyUpdate_def adminServer1_def staffServer1_def
  emptyPasswordBody_def blankRoleUser_def

lemma seededDatabase_eq:
  "seededDatabase =
     \<lparr>users =
        [\<lparr>id_user = 1, username = ''admin'', password = ''786786'',
          name_user = ''Admin User'', role = ''admin''\<rparr>,
         \<lparr>id_user = 2, username = ''staff1'', password = ''1234'',
          name_user = ''Staff User'', role = ''staff''\<rparr>],
      users_id_seq = 3, expenses = [], expenses_id_seq = 1, gains = [], gains_id_seq = 1\<rparr>"
  by (simp add: seededDatabase_def storage_defs emptyDatabase_def Let_def)

lemma firstExpenseDatabase_eq:
  "firstExpenseDatabase
     = seededDatabase\<lparr>expenses := [sampleRow 1 ''EXP001'' ''2024-05-01''],
                      expenses_id_seq := 2\<rparr>"
  by (simp add: firstExpenseDatabase_def seededDatabase_eq js_defs storage_defs route_defs
        sample_defs)

lemma emptyPasswordServer_eq:
  "emptyPasswordServer
     = \<lparr>storage = seededDatabase
          \<lparr>users := users seededDatabase
             @ [\<lparr>id_user = 3, username = ''bob'', password = [], name_user = ''Bob'',
                 role = ''staff''\<rparr>],
           users_id_seq := 4\<rparr>,
        sessionUserId = Some 1\<rparr>"
  by (simp add: emptyPasswordServer_def seededDatabase_eq js_defs storage_defs route_defs
        sample_defs)

lemma auth_staff1:
  "authenticate staffServer1
     = Inr \<lparr>id_user = 2, username = ''staff1'', password = ''1234'',
            name_user = ''Staff User'', role = ''staff''\<rparr>"
  by (simp add: staffServer1_def firstExpenseDatabase_eq seededDatabase_eq authenticate_def
        getUser_def int4_def)

lemma auth_admin1:
  "authenticate adminServer1
     = Inr \<lparr>id_user = 1, username = ''admin'', password = ''786786'',
            name_user = ''Admin User'', role = ''admin''\<rparr>"
  by (simp add: adminServer1_def firstExpenseDatabase_eq seededDatabase_eq authenticate_def
        getUser_def int4_def)

lemma authenticateAdmin_adminServer1:
  "authenticateAdmin adminServer1
     = Inr \<lparr>id_user = 1, username = ''admin'', password = ''786786'',
            name_user = ''Admin User'', role = ''admin''\<rparr>"
  by (simp add: authenticateAdmin_def requireAdmin_def auth_admin1)

section \<open>Sequential identifiers\<close>

lemma nextSlNo_empty_table:
  "getNextExpenseSlNo emptyDatabase = ''EXP001'' \<and> getNextGainSlNo emptyDatabase = ''GN001''"
  by (simp add: js_defs storage_defs sample_defs)

lemma nextSlNo_takes_maximum_not_count:
  "getNextExpenseSlNo
     (emptyDatabase\<lparr>expenses := [sampleRow 1 ''EXP001'' ''2024-05-01'',
        sampleRow 2 ''EXP002'' ''2024-05-01'', sampleRow 3 ''EXP005'' ''2024-05-01'']\<rparr>)
   = ''EXP006''"
  by (simp add: js_defs storage_defs sample_defs)

lemma expense999Server_eq:
  "expense999Server
     = \<lparr>storage = seededDatabase\<lparr>expenses := [sampleRow 1 ''EXP999'' ''2024-05-01''],
                                    expenses_id_seq := 2\<rparr>,
        sessionUserId = Some 2\<rparr>"
  by (simp add: expense999Server_def seededDatabase_eq js_defs storage_defs route_defs
        sample_defs)

lemma expense1000Server_eq:
  "expense1000Server
     = \<lparr>storage = seededDatabase\<lparr>expenses := [sampleRow 1 ''EXP999'' ''2024-05-01'',
                                                 sampleRow 2 ''EXP1000'' ''2024-05-01''],
                                    expenses_id_seq := 3\<rparr>,
        sessionUserId = Some 2\<rparr>"
  by (simp add: expense1000Server_def expense999Server_eq seededDatabase_eq js_defs
        storage_defs route_defs sample_defs)

text \<open>
  C1 (nextSequentialId returns the prefix followed by one more than the numeric maximum of
  the existing suffixes): the maximum is taken by the database over the suffixes as text.
  With \<open>EXP999\<close> stored the next identifier is \<open>EXP1000\<close>, with four digits and no
  leading zero; once \<open>EXP1000\<close> is stored as well, the greatest suffix as text is still
  \<open>999\<close> and the next identifier is \<open>EXP1000\<close> again, which is already in the table,
  where one more than the numeric maximum is \<open>EXP1001\<close>.
\<close>

theorem getNextExpenseSlNo_repeats_after_1000:
  "map slNo (expenses (storage expense999Server)) = [''EXP999'']
   \<and> getNextExpenseSlNo (storage expense999Server) = ''EXP1000''
   \<and> map slNo (expenses (storage expense1000Server)) = [''EXP999'', ''EXP1000'']
   \<and> getNextExpenseSlNo (storage expense1000Server) = ''EXP1000''"
  by (simp add: expense999Server_eq expense1000Server_eq seededDatabase_eq js_defs storage_defs
        sampleRow_def)

section \<open>Listing\<close>

lemma sort_key_date_descending:
  "sorted_wrt (\<lambda>a b. date b \<le> date a) (rev (sort_key date xs))"
proof -
  have "sorted (map date (sort_key date xs))"
    by (rule sorted_sort_key)
  then have "sorted_wrt (\<lambda>a b. date a \<le> date b) (sort_key date xs)"
    by (simp only: sorted_map)
  then show ?thesis
    by (simp only: sorted_wrt_rev)
qed

text \<open>
  C7 (list returns all stored records of the kind ordered by date descending):
  \<open>getExpenses\<close> and \<open>getGains\<close> return exactly the rows of their table, each as often
  as it is stored, and every row's date is at least the date of every row after it.
\<close>

theorem getExpenses_getGains_all_rows_date_descending:
  "mset (getExpenses db) = mset (expenses db)
   \<and> sorted_wrt (\<lambda>a b. date b \<le> date a) (getExpenses db)
   \<and> mset (getGains db) = mset (gains db)
   \<and> sorted_wrt (\<lambda>a b. date b \<le> date a) (getGains db)"
  by (simp add: getExpenses_def getGains_def getTxns_def sort_key_date_descending)

section \<open>Users\<close>

text \<open>
  C10 (createUser stores role "staff" whenever the supplied role is falsy, absent or
  empty, so a created user never has an empty role): whenever \<open>createUser\<close> returns a
  user, that user is the row appended to the table, its role is not empty, it is
  \<open>staff\<close> when the supplied role is absent or the empty string, and it is the supplied
  role otherwise.
\<close>

theorem createUser_role_never_empty:
  "createUser db ins = (Inr u, db') \<Longrightarrow>
     role u \<noteq> [] \<and> users db' = users db @ [u]
     \<and> (iu_role ins = None \<or> iu_role ins = Some [] \<longrightarrow> role u = ''staff'')
     \<and> (\<forall>r. iu_role ins = Some r \<and> r \<noteq> [] \<longrightarrow> role u = r)"
  by (auto simp: createUser_def Let_def split: if_splits option.splits)

text \<open>Witness for C10: a user supplied with the empty role is stored as \<open>staff\<close>.\<close>

theorem createUser_role_never_empty_witness:
  "createUser seededDatabase blankRoleUser
     = (Inr \<lparr>id_user = 3, username = ''bob'', password = ''secret'', name_user = ''Bob'',
              role = ''staff''\<rparr>,
        snd (createUser seededDatabase blankRoleUser))
   \<and> iu_role blankRoleUser = Some []
   \<and> role \<lparr>id_user = 3, username = ''bob'', password = ''secret'', name_user = ''Bob'',
            role = ''staff''\<rparr> \<noteq> []"
proof -
  have h: "createUser seededDatabase blankRoleUser
     = (Inr \<lparr>id_user = 3, username = ''bob'', password = ''secret'', name_user = ''Bob'',
              role = ''staff''\<rparr>,
        snd (createUser seededDatabase blankRoleUser))"
    by (simp add: seededDatabase_eq blankRoleUser_def createUser_def int4_def Let_def)
  from createUser_role_never_empty [OF h] h show ?thesis
    by (simp add: blankRoleUser_def)
qed

section \<open>Admin-only routes\<close>

lemma authenticateAdmin_Inr:
  "authenticateAdmin s = Inr u \<Longrightarrow> authenticate s = Inr u \<and> role u = ''admin''"
  by (auto simp: authenticateAdmin_def requireAdmin_def split: sum.splits if_splits)

lemma authenticate_Inl: "authenticate s = Inl out \<Longrightarrow> \<not> success out"
  by (auto simp: authenticate_def split: option.splits if_splits sum.splits)

lemma authenticateAdmin_Inl:
  "authenticateAdmin s = Inl out \<Longrightarrow>
     \<not> success out
     \<and> (\<forall>u. authenticate s = Inr u
            \<longrightarrow> role u \<noteq> ''admin''
                \<and> out = Response 403 (Message ''Forbidden: Admin access required''))"
  by (auto simp: authenticateAdmin_def requireAdmin_def split: sum.splits if_splits
        dest: authenticate_Inl)

lemma denied_PUT: "authenticateAdmin s = Inl out \<Longrightarrow> PUT_txn k p b s = (out, s)"
  by (simp add: PUT_txn_def)

lemma denied_DELETE: "authenticateAdmin s = Inl out \<Longrightarrow> DELETE_txn k p s = (out, s)"
  by (simp add: DELETE_txn_def)

lemma denied_POST_users: "authenticateAdmin s = Inl out \<Longrightarrow> POST_users b s = (out, s)"
  by (simp add: POST_users_def)

lemma adminOnly_denied:
  "adminOnly req \<Longrightarrow> authenticateAdmin s = Inl out \<Longrightarrow> registerRoutes req s = (out, s)"
  by (cases req) (simp_all add: denied_PUT denied_DELETE denied_POST_users)

text \<open>
  C2 (PUT and DELETE on expenses and gains and POST /api/users succeed only for an admin
  session; a session of another role gets 403 and the store is not changed): for each of
  these routes, a success response implies that the session's user exists and has role
  \<open>admin\<close>, and when the session's user exists with another role the response is 403
  with the admin-required message and the server state is the one before the request.
\<close>

theorem admin_routes_need_admin:
  assumes "adminOnly req" and "registerRoutes req s = (out, s')"
  shows "(success out \<longrightarrow> (\<exists>u. authenticate s = Inr u \<and> role u = ''admin''))
       \<and> (\<forall>u. authenticate s = Inr u \<and> role u \<noteq> ''admin''
              \<longrightarrow> out = Response 403 (Message ''Forbidden: Admin access required'') \<and> s' = s)"
proof (cases "authenticateAdmin s")
  case (Inl out')
  with assms adminOnly_denied have "out = out'" and "s' = s" by auto
  with authenticateAdmin_Inl [OF Inl] show ?thesis by auto
next
  case (Inr u)
  from authenticateAdmin_Inr [OF Inr] show ?thesis by auto
qed

text \<open>
  Witness for C2: the staff member's DELETE of expense 1 is answered 403 and changes
  nothing; the administrator's succeeds, and the administrator's role is \<open>admin\<close>.
\<close>

theorem admin_routes_need_admin_witness:
  "adminOnly (DeleteTxn Expense ''1'')
   \<and> authenticate staffServer1 = Inr \<lparr>id_user = 2, username = ''staff1'', password = ''1234'', name_user = ''Staff User'', role = ''staff''\<rparr>
   \<and> registerRoutes (DeleteTxn Expense ''1'') staffServer1
       = (Response 403 (Message ''Forbidden: Admin access required''), staffServer1)
   \<and> success (fst (registerRoutes (DeleteTxn Expense ''1'') adminServer1))
   \<and> (\<exists>u. authenticate adminServer1 = Inr u \<and> role u = ''admin'')"
proof -
  have a: "adminOnly (DeleteTxn Expense ''1'')" by simp
  have r: "registerRoutes (DeleteTxn Expense ''1'') staffServer1
         = (fst (registerRoutes (DeleteTxn Expense ''1'') staffServer1),
            snd (registerRoutes (DeleteTxn Expense ''1'') staffServer1))" by simp
  have r': "registerRoutes (DeleteTxn Expense ''1'') adminServer1
         = (fst (registerRoutes (DeleteTxn Expense ''1'') adminServer1),
            snd (registerRoutes (DeleteTxn Expense ''1'') adminServer1))" by simp
  have ok: "success (fst (registerRoutes (DeleteTxn Expense ''1'') adminServer1))"
    by (simp add: adminServer1_def firstExpenseDatabase_eq seededDatabase_eq js_defs storage_defs route_defs sampleRow_def)
  from admin_routes_need_admin [OF a r]
  have "\<forall>u. authenticate staffServer1 = Inr u \<and> role u \<noteq> ''admin''
          \<longrightarrow> fst (registerRoutes (DeleteTxn Expense ''1'') staffServer1)
                = Response 403 (Message ''Forbidden: Admin access required'')
              \<and> snd (registerRoutes (DeleteTxn Expense ''1'') staffServer1) = staffServer1"
    by (rule conjunct2)
  then have staff: "registerRoutes (DeleteTxn Expense ''1'') staffServer1
       = (Response 403 (Message ''Forbidden: Admin access required''), staffServer1)"
    by (simp add: auth_staff1 prod_eq_iff)
  from admin_routes_need_admin [OF a r']
  have "success (fst (registerRoutes (DeleteTxn Expense ''1'') adminServer1))
          \<longrightarrow> (\<exists>u. authenticate adminServer1 = Inr u \<and> role u = ''admin'')"
    by (rule conjunct1)
  with ok have "\<exists>u. authenticate adminServer1 = Inr u \<and> role u = ''admin''" by (rule rev_mp)
  with a staff ok auth_staff1 show ?thesis by (simp only: simp_thms)
qed

section \<open>Login\<close>

lemma find_unique_username:
  "distinct (map username us) \<Longrightarrow> x \<in> set us \<Longrightarrow> find (\<lambda>u. username u = username x) us = Some x"
  by (induction us) (auto simp: image_iff)

lemma login_rejected:
  assumes "u \<noteq> []" and "p \<noteq> []"
    and "getUserByUsername (storage s) u = None \<or> (\<exists>x. getUserByUsername (storage s) u = Some x \<and> password x \<noteq> p)"
  shows "POST_login \<lparr>lb_username = Some u, lb_password = Some p\<rparr> s
           = (Response 401 (Message ''Invalid username or password''), s)"
  using assms by (auto simp: POST_login_def)

lemma login_accepted:
  assumes "x \<in> set (users (storage s))" and "distinct (map username (users (storage s)))"
    and "username x \<noteq> []" and "password x \<noteq> []"
  shows "POST_login \<lparr>lb_username = Some (username x), lb_password = Some (password x)\<rparr> s
           = (Response 200 (UserInfo (omitKey ''password'' (userObject x))), s\<lparr>sessionUserId := Some (id_user x)\<rparr>)"
  using assms by (simp add: POST_login_def getUserByUsername_def find_unique_username)

lemma login_fields_required:
  assumes "lb_username b = None \<or> lb_username b = Some [] \<or> lb_password b = None
           \<or> lb_password b = Some []"
  shows "POST_login b s = (Response 400 (Message ''Username and password are required''), s)"
  using assms by (auto simp: POST_login_def split: option.splits)

lemma createUser_keeps_usernames_distinct:
  "distinct (map username (users db)) \<Longrightarrow> distinct (map username (users (snd (createUser db ins))))"
  by (auto simp: createUser_def Let_def list_ex_iff)

text \<open>
  C3, amended (failed logins are indistinguishable, stored pairs are accepted): among
  requests whose username and password are both non-empty, one with an unknown username
  and one with a stored username and a wrong password get the same answer, 401 with the
  same message, and leave the session as it was; and for every stored user whose
  username and password are non-empty (usernames being unique, as the table's
  constraint makes them), logging in with that pair returns 200 with the user without
  the password and binds the session to the user's id; every request whose username or
  password is missing or empty is answered 400 with the fields-required message,
  whatever the database holds, and leaves the session as it was.
\<close>

theorem login_failures_alike_stored_pairs_accepted:
  "(u1 \<noteq> [] \<and> p1 \<noteq> [] \<and> u2 \<noteq> [] \<and> p2 \<noteq> []
      \<and> getUserByUsername (storage s) u1 = None
      \<and> getUserByUsername (storage s) u2 = Some x2 \<and> password x2 \<noteq> p2
    \<longrightarrow> POST_login \<lparr>lb_username = Some u1, lb_password = Some p1\<rparr> s
          = (Response 401 (Message ''Invalid username or password''), s)
      \<and> POST_login \<lparr>lb_username = Some u2, lb_password = Some p2\<rparr> s
          = (Response 401 (Message ''Invalid username or password''), s))
   \<and> (x \<in> set (users (storage s)) \<and> distinct (map username (users (storage s)))
      \<and> username x \<noteq> [] \<and> password x \<noteq> []
    \<longrightarrow> POST_login \<lparr>lb_username = Some (username x), lb_password = Some (password x)\<rparr> s
          = (Response 200 (UserInfo (omitKey ''password'' (userObject x))),
             s\<lparr>sessionUserId := Some (id_user x)\<rparr>))
   \<and> (lb_username b = None \<or> lb_username b = Some [] \<or> lb_password b = None
        \<or> lb_password b = Some []
    \<longrightarrow> POST_login b s = (Response 400 (Message ''Username and password are required''), s))"
  using login_rejected login_accepted login_fields_required by blast

text \<open>
  Witness for C3: on the seeded server an unknown user and \<open>staff1\<close> with a wrong
  password both get the same 401, \<open>staff1\<close> with its password gets 200, and \<open>staff1\<close>
  with no password gets 400.
\<close>

theorem login_failures_alike_stored_pairs_accepted_witness:
  "POST_login \<lparr>lb_username = Some ''nobody'', lb_password = Some ''1234''\<rparr> anonymousServer
     = (Response 401 (Message ''Invalid username or password''), anonymousServer)
   \<and> POST_login \<lparr>lb_username = Some ''staff1'', lb_password = Some ''786786''\<rparr> anonymousServer
     = (Response 401 (Message ''Invalid username or password''), anonymousServer)
   \<and> POST_login \<lparr>lb_username = Some ''staff1'', lb_password = Some ''1234''\<rparr> anonymousServer
     = (Response 200 (UserInfo [(''id'', JNum 2), (''username'', JStr ''staff1''),
                                (''name'', JStr ''Staff User''), (''role'', JStr ''staff'')]),
        anonymousServer\<lparr>sessionUserId := Some 2\<rparr>)
   \<and> POST_login \<lparr>lb_username = Some ''staff1'', lb_password = None\<rparr> anonymousServer
     = (Response 400 (Message ''Username and password are required''), anonymousServer)"
  using login_failures_alike_stored_pairs_accepted
    [of "''nobody''" "''1234''" "''staff1''" "''786786''" anonymousServer
        "\<lparr>id_user = 2, username = ''staff1'', password = ''1234'',
          name_user = ''Staff User'', role = ''staff''\<rparr>"
        "\<lparr>id_user = 2, username = ''staff1'', password = ''1234'',
          name_user = ''Staff User'', role = ''staff''\<rparr>"
        "\<lparr>lb_username = Some ''staff1'', lb_password = None\<rparr>"]
  by (simp add: anonymousServer_def seededDatabase_eq getUserByUsername_def omitKey_def
        userObject_def)

text \<open>
  Counterexample to C3 as stated: the administrator creates \<open>bob\<close> with the empty
  password (the schema accepts it), so \<open>(bob, "")\<close> is a stored pair; logging in with
  it is answered 400, not 200, because an empty password counts as missing.
\<close>

theorem stored_empty_password_login_400:
  "getUserByUsername (storage emptyPasswordServer) ''bob''
     = Some \<lparr>id_user = 3, username = ''bob'', password = [], name_user = ''Bob'', role = ''staff''\<rparr>
   \<and> fst (POST_login \<lparr>lb_username = Some ''bob'', lb_password = Some []\<rparr> emptyPasswordServer)
     = Response 400 (Message ''Username and password are required'')"
  by (simp add: emptyPasswordServer_eq seededDatabase_eq getUserByUsername_def POST_login_def)

section \<open>Responses that carry a user\<close>

lemma omit_password: "omitKey ''password'' (userObject u) =
   [(''id'', JNum (id_user u)), (''username'', JStr (username u)), (''name'', JStr (name_user u)), (''role'', JStr (role u))]"
  by (simp add: omitKey_def userObject_def)

lemma getUser_Some_stored: "getUser db i = Inr (Some u) \<Longrightarrow> u \<in> set (users db)"
  by (auto simp: getUser_def find_Some_iff split: if_splits)

lemma authenticate_stored: "authenticate s = Inr u \<Longrightarrow> u \<in> set (users (storage s))"
  by (auto simp: authenticate_def split: option.splits if_splits sum.splits dest: getUser_Some_stored)

lemma login_user: "POST_login b s = (out, s') \<Longrightarrow> success out \<Longrightarrow>
   \<exists>u \<in> set (users (storage s')). out = Response 200 (UserInfo (omitKey ''password'' (userObject u)))"
  by (auto simp: POST_login_def getUserByUsername_def find_Some_iff split: option.splits if_splits)

lemma me_user: "GET_users_me s = (out, s') \<Longrightarrow> success out \<Longrightarrow>
   \<exists>u \<in> set (users (storage s')). out = Response 200 (UserInfo (omitKey ''password'' (userObject u)))"
  by (auto simp: GET_users_me_def split: sum.splits dest: authenticate_stored authenticate_Inl)

lemma createUser_stored: "createUser db ins = (Inr u, db') \<Longrightarrow> u \<in> set (users db')"
  by (auto simp: createUser_def Let_def split: if_splits)

lemma users_user: "POST_users b s = (out, s') \<Longrightarrow> success out \<Longrightarrow>
   \<exists>u \<in> set (users (storage s')). out = Response 201 (UserInfo (omitKey ''password'' (userObject u)))"
  by (auto simp: POST_users_def split: sum.splits option.splits prod.splits
        dest: authenticateAdmin_Inl intro: bexI [OF _ createUser_stored])

text \<open>
  C4 (every success response that carries a user, from login, GET /api/users/me and
  POST /api/users, holds all fields of the stored user except the password): a success
  response of these routes is 200 (201 for POST /api/users) and its body is the object of
  a user stored in the resulting database with the \<open>password\<close> key removed, that is
  exactly the fields id, username, name and role of that user, while the stored object
  does hold the password.
\<close>

theorem user_responses_omit_password:
  assumes "returnsUser req" and "registerRoutes req s = (out, s')" and "success out"
  shows "\<exists>u \<in> set (users (storage s')).
           out = Response (case req of PostUsers b \<Rightarrow> 201 | _ \<Rightarrow> 200)
                   (UserInfo (omitKey ''password'' (userObject u)))
           \<and> omitKey ''password'' (userObject u)
               = [(''id'', JNum (id_user u)), (''username'', JStr (username u)),
                  (''name'', JStr (name_user u)), (''role'', JStr (role u))]
           \<and> map_of (userObject u) ''password'' = Some (JStr (password u))"
proof -
  have pw: "\<And>u. map_of (userObject u) ''password'' = Some (JStr (password u))"
    by (simp add: userObject_def)
  show ?thesis
  proof (cases req)
    case (PostLogin b)
    with assms login_user [of b s out s'] show ?thesis by (auto simp: omit_password pw)
  next
    case GetUsersMe
    with assms me_user [of s out s'] show ?thesis by (auto simp: omit_password pw)
  next
    case (PostUsers b)
    with assms users_user [of b s out s'] show ?thesis by (auto simp: omit_password pw)
  qed (use assms in simp_all)
qed

text \<open>
  Witness for C4: the seeded administrator logs in.
\<close>

theorem user_responses_omit_password_witness:
  "returnsUser (PostLogin \<lparr>lb_username = Some ''admin'', lb_password = Some ''786786''\<rparr>)
   \<and> success (fst (registerRoutes (PostLogin \<lparr>lb_username = Some ''admin'', lb_password = Some ''786786''\<rparr>) anonymousServer))
   \<and> (\<exists>u \<in> set (users (storage (snd (registerRoutes
             (PostLogin \<lparr>lb_username = Some ''admin'', lb_password = Some ''786786''\<rparr>) anonymousServer)))).
         fst (registerRoutes (PostLogin \<lparr>lb_username = Some ''admin'', lb_password = Some ''786786''\<rparr>) anonymousServer)
           = Response 200 (UserInfo [(''id'', JNum (id_user u)), (''username'', JStr (username u)),
                                     (''name'', JStr (name_user u)), (''role'', JStr (role u))])
         \<and> map_of (userObject u) ''password'' = Some (JStr (password u)))"
proof -
  let ?req = "PostLogin \<lparr>lb_username = Some ''admin'', lb_password = Some ''786786''\<rparr>"
  have a: "returnsUser ?req" by simp
  have r: "registerRoutes ?req anonymousServer
             = (fst (registerRoutes ?req anonymousServer), snd (registerRoutes ?req anonymousServer))"
    by simp
  have ok: "success (fst (registerRoutes ?req anonymousServer))"
    by (simp add: anonymousServer_def seededDatabase_eq POST_login_def getUserByUsername_def)
  from user_responses_omit_password [OF a r ok] a ok show ?thesis
    by auto
qed

section \<open>Update of a missing row and the empty update\<close>

lemma server_storage_same [simp]: "s\<lparr>storage := storage s\<rparr> = s"
  by simp

lemma setTable_same [simp]: "setTable k (table k db) db = db"
  by (cases k) simp_all

lemma table_setTable [simp]: "table k (setTable k rows db) = rows"
  by (cases k) simp_all

lemma storeUpdate_fits: "fitsColumns u \<Longrightarrow> storeUpdate u = Some u"
  by (auto simp: fitsColumns_def storeUpdate_def storeVarchar_def varchar_def
        split: option.splits)








section \<open>Creation records the session user\<close>

lemma charLength_le_jsLength: "charLength s \<le> jsLength s"
  by (simp add: jsLength_def)

lemma insertTxnSchema_Inr:
  "insertTxnSchema b = Inr v \<Longrightarrow>
     tb_slNo b = Some (it_slNo v) \<and> tb_createdBy b = Some (it_createdBy v)
     \<and> jsLength (it_slNo v) \<le> 10 \<and> jsLength (it_date v) \<le> 10
     \<and> jsLength (it_time v) \<le> 10"
  by (auto simp: insertTxnSchema_def split: option.splits if_splits)

lemma insertRow_ok:
  assumes "charLength (it_slNo v) \<le> 10" "charLength (it_date v) \<le> 10"
    "charLength (it_time v) \<le> 10"
    and "int4 i" "int4 (it_createdBy v)"
    and "\<forall>r \<in> set rows. id_txn r \<noteq> i \<and> slNo r \<noteq> it_slNo v"
  shows "\<exists>row. insertRow i rows v = Inr row \<and> createdBy row = it_createdBy v
           \<and> slNo row = it_slNo v \<and> id_txn row = i"
  using assms by (auto simp: insertRow_def varchar_def list_ex_iff)

lemma authenticate_int4: "authenticate s = Inr u \<Longrightarrow> int4 (id_user u)"
  by (auto simp: authenticate_def getUser_def find_Some_iff
        split: option.splits if_splits sum.splits)

lemma POST_txn_created:
  assumes "authenticate s = Inr usr"
    and "insertTxnSchema (b\<lparr>tb_createdBy := Some (id_user usr)\<rparr>) = Inr v"
    and "int4 (idSeq k (storage s))"
    and "\<forall>r \<in> set (table k (storage s)).
           id_txn r \<noteq> idSeq k (storage s) \<and> slNo r \<noteq> it_slNo v"
  shows "\<exists>row s'. POST_txn k b s = (Response 201 (Row row), s')
           \<and> createdBy row = id_user usr \<and> slNo row = it_slNo v
           \<and> table k (storage s') = table k (storage s) @ [row]"
proof -
  from insertTxnSchema_Inr [OF assms(2)]
  have js: "it_createdBy v = id_user usr" "jsLength (it_slNo v) \<le> 10"
    "jsLength (it_date v) \<le> 10" "jsLength (it_time v) \<le> 10" by simp_all
  have v: "it_createdBy v = id_user usr" "charLength (it_slNo v) \<le> 10"
    "charLength (it_date v) \<le> 10" "charLength (it_time v) \<le> 10"
    using js charLength_le_jsLength le_trans by blast+
  with authenticate_int4 [OF assms(1)] have "int4 (it_createdBy v)" by simp
  from insertRow_ok [OF v(2) v(3) v(4) assms(3) this assms(4)]
  obtain row where row: "insertRow (idSeq k (storage s)) (table k (storage s)) v = Inr row"
    "createdBy row = it_createdBy v" "slNo row = it_slNo v" by blast
  with assms(1,2) v(1) show ?thesis
    by (cases k) (simp_all add: POST_txn_def createTxn_def Let_def)
qed

lemma POST_txn_invalid_400:
  "authenticate s = Inr usr \<Longrightarrow>
     insertTxnSchema (b\<lparr>tb_createdBy := Some (id_user usr)\<rparr>) = Inl e
     \<Longrightarrow> POST_txn k b s = (Response 400 ValidationMessage, s)"
  by (simp add: POST_txn_def)

lemma amount_beyond_schema_400:
  "POST_txn Expense ((sampleBody ''EXP001'')\<lparr>tb_amount := Some 1000000000000000\<rparr>) staffServer
     = (Response 400 ValidationMessage, staffServer)"
  by (simp add: staffServer_def seededDatabase_eq js_defs storage_defs route_defs sampleBody_def)

lemma POST_txn_ignores_createdBy: "POST_txn k (b\<lparr>tb_createdBy := c\<rparr>) s = POST_txn k b s"
  by (simp add: POST_txn_def split: sum.splits)

text \<open>
  C6, amended (POST /api/expenses and POST /api/gains return 201 and record the session
  user as creator, whatever createdBy the body carries): the response does not depend on
  the body's createdBy; and for every authenticated user and every body that passes the
  insert schema (fields present, slNo, date and time of length at most 10, amount within
  the schema's bounds), provided that its slNo is not yet stored in the table and that
  the id the table's sequence hands out next is free and within the integer column's
  range, the response is 201 with the new record, whose createdBy is the session user's id and
  which is appended to the table.
\<close>

theorem POST_txn_created_by_session_user:
  "POST_txn k (b\<lparr>tb_createdBy := c\<rparr>) s = POST_txn k b s
   \<and> (authenticate s = Inr usr
       \<and> insertTxnSchema (b\<lparr>tb_createdBy := Some (id_user usr)\<rparr>) = Inr v
       \<and> int4 (idSeq k (storage s))
       \<and> (\<forall>r \<in> set (table k (storage s)).
             id_txn r \<noteq> idSeq k (storage s) \<and> slNo r \<noteq> it_slNo v)
      \<longrightarrow> (\<exists>row s'. POST_txn k b s = (Response 201 (Row row), s')
             \<and> createdBy row = id_user usr \<and> slNo row = it_slNo v
             \<and> table k (storage s') = table k (storage s) @ [row]))"
  using POST_txn_created [of s usr b v k] POST_txn_ignores_createdBy by simp

text \<open>
  Witness for C6: the staff member posts the first expense with a body that names
  user 1 as creator; the stored record has createdBy 2.
\<close>

theorem POST_txn_created_by_session_user_witness:
  "authenticate staffServer = Inr \<lparr>id_user = 2, username = ''staff1'', password = ''1234'',
       name_user = ''Staff User'', role = ''staff''\<rparr>
   \<and> (\<exists>row s'. POST_txn Expense ((sampleBody ''EXP001'')\<lparr>tb_createdBy := Some 1\<rparr>) staffServer
                  = (Response 201 (Row row), s')
         \<and> createdBy row = 2 \<and> slNo row = ''EXP001''
         \<and> table Expense (storage s') = table Expense (storage staffServer) @ [row])"
proof -
  let ?u = "\<lparr>id_user = 2, username = ''staff1'', password = ''1234'',
       name_user = ''Staff User'', role = ''staff''\<rparr>"
  let ?v = "\<lparr>it_slNo = ''EXP001'', it_date = ''2024-05-01'', it_time = ''10:30'', it_name = ''Paper'',
            it_type = ''Office'', it_detail = ''A4 sheets'', it_paymentType = ''Cash'',
            it_amount = 250, it_createdBy = 2\<rparr>"
  have auth: "authenticate staffServer = Inr ?u"
    by (simp add: staffServer_def seededDatabase_eq authenticate_def getUser_def int4_def)
  have valid: "insertTxnSchema ((sampleBody ''EXP001'')
                   \<lparr>tb_createdBy := Some 1, tb_createdBy := Some (id_user ?u)\<rparr>) = Inr ?v"
    by (simp add: insertTxnSchema_def sampleBody_def int4_def js_defs)
  have rest: "int4 (idSeq Expense (storage staffServer))"
    "\<forall>r \<in> set (table Expense (storage staffServer)).
        id_txn r \<noteq> idSeq Expense (storage staffServer) \<and> slNo r \<noteq> it_slNo ?v"
    by (simp_all add: staffServer_def seededDatabase_eq int4_def)
  from POST_txn_created_by_session_user
         [where k = Expense and b = "(sampleBody ''EXP001'')\<lparr>tb_createdBy := Some 1\<rparr>"
            and s = staffServer and usr = ?u and v = ?v]
       auth valid rest
  show ?thesis by simp
qed

lemma renumberedServer_eq:
  "renumberedServer
     = \<lparr>storage = seededDatabase\<lparr>expenses := [sampleRow 2 ''EXP001'' ''2024-05-01''],
                                    expenses_id_seq := 2\<rparr>,
        sessionUserId = Some 2\<rparr>"
  by (simp add: renumberedServer_def adminServer1_def firstExpenseDatabase_eq seededDatabase_eq
        js_defs storage_defs route_defs sampleRow_def emptyUpdate_def)

text \<open>
  Counterexample to C6 as stated: the body passes the insert schema, but its slNo
  \<open>EXP001\<close> is already stored, so the insert is rejected and the response is 500. And
  once the administrator has given expense 1 the id 2, which the sequence hands out
  next, the valid body with the new slNo \<open>EXP002\<close> is answered 500 as well.
\<close>

theorem duplicate_slNo_POST_500:
  "insertTxnSchema ((sampleBody ''EXP001'')\<lparr>tb_createdBy := Some 2\<rparr>)
     = Inr \<lparr>it_slNo = ''EXP001'', it_date = ''2024-05-01'', it_time = ''10:30'', it_name = ''Paper'',
            it_type = ''Office'', it_detail = ''A4 sheets'', it_paymentType = ''Cash'',
            it_amount = 250, it_createdBy = 2\<rparr>
   \<and> fst (POST_txn Expense (sampleBody ''EXP001'') staffServer1)
     = Response 500 (Message ''Failed to create expense'')
   \<and> insertTxnSchema ((sampleBody ''EXP002'')\<lparr>tb_createdBy := Some 2\<rparr>)
     = Inr \<lparr>it_slNo = ''EXP002'', it_date = ''2024-05-01'', it_time = ''10:30'', it_name = ''Paper'',
            it_type = ''Office'', it_detail = ''A4 sheets'', it_paymentType = ''Cash'',
            it_amount = 250, it_createdBy = 2\<rparr>
   \<and> map slNo (expenses (storage renumberedServer)) = [''EXP001'']
   \<and> fst (POST_txn Expense (sampleBody ''EXP002'') renumberedServer)
     = Response 500 (Message ''Failed to create expense'')"
  by (simp add: staffServer1_def firstExpenseDatabase_eq renumberedServer_eq seededDatabase_eq
       js_defs storage_defs route_defs sampleRow_def sampleBody_def)

section \<open>Update sets fields verbatim\<close>

lemma getTxn_Some:
  "getTxn k db i = Inr (Some r) \<Longrightarrow>
     int4 i \<and> find (\<lambda>r. id_txn r = i) (table k db) = Some r \<and> r \<in> set (table k db)
     \<and> id_txn r = i"
  by (auto simp: getTxn_def find_Some_iff split: if_splits)

lemma updateTxn_applied:
  assumes "getTxn k db i = Inr (Some r)" and "\<not> noValues u" and "intParamsOk u"
    and "fitsColumns u" and "\<not> takenByOther i (setColumns u r) (table k db)"
  shows "updateTxn k db i u
           = (Inr (Some (setColumns u r)),
              setTable k (map (\<lambda>x. if id_txn x = i then setColumns u r else x) (table k db)) db)"
  using assms getTxn_Some [OF assms(1)]
  by (simp add: updateTxn_def updateRows_def storeUpdate_fits Let_def)

lemma PUT_applied:
  assumes "authenticateAdmin s = Inr a" and "parseInt idParam = Num i"
    and "getTxn k (storage s) i = Inr (Some r)" and "\<not> noValues u" and "intParamsOk u"
    and "fitsColumns u" and "\<not> takenByOther i (setColumns u r) (table k (storage s))"
  shows "PUT_txn k idParam u s
           = (Response 200 (Row (setColumns u r)),
              s\<lparr>storage := setTable k
                   (map (\<lambda>x. if id_txn x = i then setColumns u r else x) (table k (storage s)))
                   (storage s)\<rparr>)"
  using assms(1,2,3) updateTxn_applied [OF assms(3,4,5,6,7)]
  by (simp add: PUT_txn_def)

lemma updated_row_stored:
  "getTxn k db i = Inr (Some r) \<Longrightarrow>
     r' \<in> set (map (\<lambda>x. if id_txn x = i then r' else x) (table k db))"
  by (auto dest!: getTxn_Some simp: image_iff)

lemma PUT_hello:
  "PUT_txn Expense ''1'' (emptyUpdate\<lparr>tu_slNo := Some ''hello''\<rparr>) adminServer1
     = (Response 200 (Row (sampleRow 1 ''hello'' ''2024-05-01'')),
        adminServer1\<lparr>storage := firstExpenseDatabase\<lparr>expenses := [sampleRow 1 ''hello'' ''2024-05-01'']\<rparr>\<rparr>)"
  by (simp add: adminServer1_def firstExpenseDatabase_eq seededDatabase_eq
       js_defs storage_defs route_defs sampleRow_def emptyUpdate_def)

lemma formats: "slNoFormat ''EXP'' ''EXP001''" "\<not> slNoFormat ''EXP'' ''hello''"
  by (simp_all add: slNoFormat_def isRadixDigit_def digitOf_def Let_def)

lemma adminServer2_eq:
  "adminServer2
     = \<lparr>storage = seededDatabase\<lparr>expenses := [sampleRow 1 ''EXP001'' ''2024-05-01'',
                                                 sampleRow 2 ''EXP002'' ''2024-05-01''],
                                    expenses_id_seq := 3\<rparr>,
        sessionUserId = Some 1\<rparr>"
  by (simp add: adminServer2_def staffServer1_def firstExpenseDatabase_eq seededDatabase_eq
        js_defs storage_defs route_defs sampleRow_def sampleBody_def)

lemma PUT_breaks_format:
  "\<exists>s0 p0 u0 bd0 s1. list_all (\<lambda>r. slNoFormat ''EXP'' (slNo r)) (expenses (storage s0))
         \<and> PUT_txn Expense p0 u0 s0 = (Response 200 bd0, s1)
         \<and> \<not> list_all (\<lambda>r. slNoFormat ''EXP'' (slNo r)) (expenses (storage s1))"
proof -
  have "list_all (\<lambda>r. slNoFormat ''EXP'' (slNo r)) (expenses (storage adminServer1))"
    by (simp add: adminServer1_def firstExpenseDatabase_eq sampleRow_def formats)
  moreover have "\<not> list_all (\<lambda>r. slNoFormat ''EXP'' (slNo r))
      (expenses (storage (adminServer1\<lparr>storage := firstExpenseDatabase\<lparr>expenses := [sampleRow 1 ''hello'' ''2024-05-01'']\<rparr>\<rparr>)))"
    by (simp add: sampleRow_def formats)
  ultimately have "list_all (\<lambda>r. slNoFormat ''EXP'' (slNo r)) (expenses (storage adminServer1))
         \<and> PUT_txn Expense ''1'' (emptyUpdate\<lparr>tu_slNo := Some ''hello''\<rparr>) adminServer1
             = (Response 200 (Row (sampleRow 1 ''hello'' ''2024-05-01'')),
                adminServer1\<lparr>storage := firstExpenseDatabase\<lparr>expenses := [sampleRow 1 ''hello'' ''2024-05-01'']\<rparr>\<rparr>)
         \<and> \<not> list_all (\<lambda>r. slNoFormat ''EXP'' (slNo r))
              (expenses (storage (adminServer1\<lparr>storage := firstExpenseDatabase\<lparr>expenses := [sampleRow 1 ''hello'' ''2024-05-01'']\<rparr>\<rparr>)))"
    using PUT_hello by (intro conjI)
  then show ?thesis by (intro exI)
qed

lemma POST_breaks_format:
  "\<exists>s0 b0 bd0 s1. list_all (\<lambda>r. slNoFormat ''EXP'' (slNo r)) (expenses (storage s0))
         \<and> POST_txn Expense b0 s0 = (Response 201 bd0, s1)
         \<and> \<not> list_all (\<lambda>r. slNoFormat ''EXP'' (slNo r)) (expenses (storage s1))"
proof -
  let ?R = "POST_txn Expense (sampleBody ''hello'') staffServer1"
  have e: "expenses (storage (snd ?R))
       = [sampleRow 1 ''EXP001'' ''2024-05-01'', sampleRow 2 ''hello'' ''2024-05-01'']"
    and f: "fst ?R = Response 201 (Row (sampleRow 2 ''hello'' ''2024-05-01''))"
    by (simp_all add: staffServer1_def firstExpenseDatabase_eq seededDatabase_eq
       js_defs storage_defs route_defs sampleRow_def sampleBody_def)
  have "list_all (\<lambda>r. slNoFormat ''EXP'' (slNo r)) (expenses (storage staffServer1))"
    by (simp add: staffServer1_def firstExpenseDatabase_eq sampleRow_def formats)
  moreover have "\<not> list_all (\<lambda>r. slNoFormat ''EXP'' (slNo r)) (expenses (storage (snd ?R)))"
    by (simp only: e) (simp add: sampleRow_def formats)
  moreover from f have "?R = (Response 201 (Row (sampleRow 2 ''hello'' ''2024-05-01'')), snd ?R)"
    by (simp add: prod_eq_iff)
  ultimately have "list_all (\<lambda>r. slNoFormat ''EXP'' (slNo r)) (expenses (storage staffServer1))
     \<and> ?R = (Response 201 (Row (sampleRow 2 ''hello'' ''2024-05-01'')), snd ?R)
     \<and> \<not> list_all (\<lambda>r. slNoFormat ''EXP'' (slNo r)) (expenses (storage (snd ?R)))"
    by (intro conjI)
  then show ?thesis by (intro exI)
qed

text \<open>
  C8, amended (update applies the fields of the object verbatim, with no validation, and
  the slNo format is kept neither by update nor by create): for an admin PUT on a stored
  record with an object that sets at least one column, whose text values fit their
  columns, whose integers are 32-bit and whose resulting id and slNo belong to no other
  row, the answer is 200 with the record in which exactly the columns present in the
  object are replaced by the object's values, whichever columns they are, id, slNo and
  createdBy included, and that record takes the place of the old one in the table;
  there is an admin PUT on a table of well-formatted slNo values after which a stored
  slNo is not in the format; and there is likewise a POST after which a stored slNo is
  not in the format, since create stores the slNo the caller supplies.
\<close>

theorem update_sets_fields_verbatim_format_not_kept:
  "(authenticateAdmin s = Inr a \<and> parseInt idParam = Num i
      \<and> getTxn k (storage s) i = Inr (Some r)
      \<and> \<not> noValues u \<and> intParamsOk u \<and> fitsColumns u
      \<and> \<not> takenByOther i (setColumns u r) (table k (storage s))
     \<longrightarrow> PUT_txn k idParam u s
           = (Response 200 (Row (setColumns u r)),
              s\<lparr>storage := setTable k
                   (map (\<lambda>x. if id_txn x = i then setColumns u r else x) (table k (storage s)))
                   (storage s)\<rparr>)
        \<and> setColumns u r
            \<in> set (map (\<lambda>x. if id_txn x = i then setColumns u r else x) (table k (storage s))))
   \<and> (\<exists>s0 p0 u0 bd0 s1. list_all (\<lambda>r. slNoFormat ''EXP'' (slNo r)) (expenses (storage s0))
         \<and> PUT_txn Expense p0 u0 s0 = (Response 200 bd0, s1)
         \<and> \<not> list_all (\<lambda>r. slNoFormat ''EXP'' (slNo r)) (expenses (storage s1)))
   \<and> (\<exists>s0 b0 bd0 s1. list_all (\<lambda>r. slNoFormat ''EXP'' (slNo r)) (expenses (storage s0))
         \<and> POST_txn Expense b0 s0 = (Response 201 bd0, s1)
         \<and> \<not> list_all (\<lambda>r. slNoFormat ''EXP'' (slNo r)) (expenses (storage s1)))"
proof (intro conjI impI)
  assume h: "authenticateAdmin s = Inr a \<and> parseInt idParam = Num i
      \<and> getTxn k (storage s) i = Inr (Some r)
      \<and> \<not> noValues u \<and> intParamsOk u \<and> fitsColumns u
      \<and> \<not> takenByOther i (setColumns u r) (table k (storage s))"
  then show "PUT_txn k idParam u s
           = (Response 200 (Row (setColumns u r)),
              s\<lparr>storage := setTable k
                   (map (\<lambda>x. if id_txn x = i then setColumns u r else x) (table k (storage s)))
                   (storage s)\<rparr>)"
    using PUT_applied [of s a idParam i k r u] by simp
  from h show "setColumns u r
      \<in> set (map (\<lambda>x. if id_txn x = i then setColumns u r else x) (table k (storage s)))"
    using updated_row_stored [of k "storage s" i r] by simp
next
  show "\<exists>s0 p0 u0 bd0 s1. list_all (\<lambda>r. slNoFormat ''EXP'' (slNo r)) (expenses (storage s0))
         \<and> PUT_txn Expense p0 u0 s0 = (Response 200 bd0, s1)
         \<and> \<not> list_all (\<lambda>r. slNoFormat ''EXP'' (slNo r)) (expenses (storage s1))"
    by (rule PUT_breaks_format)
next
  show "\<exists>s0 b0 bd0 s1. list_all (\<lambda>r. slNoFormat ''EXP'' (slNo r)) (expenses (storage s0))
         \<and> POST_txn Expense b0 s0 = (Response 201 bd0, s1)
         \<and> \<not> list_all (\<lambda>r. slNoFormat ''EXP'' (slNo r)) (expenses (storage s1))"
    by (rule POST_breaks_format)
qed

text \<open>
  Witness for C8: the administrator sets the id of expense 1 to 7, its slNo to
  \<open>hello\<close> and its createdBy to 1; the answer is the record with these three values and
  the other columns as they were.
\<close>

theorem update_sets_fields_verbatim_format_not_kept_witness:
  "(authenticateAdmin adminServer1
      = Inr \<lparr>id_user = 1, username = ''admin'', password = ''786786'',
             name_user = ''Admin User'', role = ''admin''\<rparr>
    \<and> parseInt ''1'' = Num 1
    \<and> getTxn Expense (storage adminServer1) 1 = Inr (Some (sampleRow 1 ''EXP001'' ''2024-05-01''))
    \<and> \<not> noValues (emptyUpdate\<lparr>tu_id := Some 7, tu_slNo := Some ''hello'', tu_createdBy := Some 1\<rparr>)
    \<and> intParamsOk (emptyUpdate\<lparr>tu_id := Some 7, tu_slNo := Some ''hello'', tu_createdBy := Some 1\<rparr>)
    \<and> fitsColumns (emptyUpdate\<lparr>tu_id := Some 7, tu_slNo := Some ''hello'', tu_createdBy := Some 1\<rparr>)
    \<and> \<not> takenByOther 1
          (setColumns (emptyUpdate\<lparr>tu_id := Some 7, tu_slNo := Some ''hello'', tu_createdBy := Some 1\<rparr>)
             (sampleRow 1 ''EXP001'' ''2024-05-01''))
          (table Expense (storage adminServer1)))
   \<and> fst (PUT_txn Expense ''1''
            (emptyUpdate\<lparr>tu_id := Some 7, tu_slNo := Some ''hello'', tu_createdBy := Some 1\<rparr>)
            adminServer1)
       = Response 200 (Row \<lparr>id_txn = 7, slNo = ''hello'', date = ''2024-05-01'', time = ''10:30'',
                             name_txn = ''Paper'', type_txn = ''Office'', detail = ''A4 sheets'',
                             paymentType = ''Cash'', amount = 250, createdBy = 1\<rparr>)
   \<and> \<not> slNoFormat ''EXP'' ''hello''"
proof -
  let ?u = "emptyUpdate\<lparr>tu_id := Some 7, tu_slNo := Some ''hello'', tu_createdBy := Some 1\<rparr>"
  let ?r = "sampleRow 1 ''EXP001'' ''2024-05-01''"
  let ?s' = "adminServer1\<lparr>storage := setTable Expense
               (map (\<lambda>x. if id_txn x = 1 then setColumns ?u ?r else x)
                  (table Expense (storage adminServer1)))
               (storage adminServer1)\<rparr>"
  note auth = authenticateAdmin_adminServer1
  have p1: "parseInt ''1'' = Num 1"
    by (simp add: js_defs)
  have g1: "getTxn Expense (storage adminServer1) 1 = Inr (Some ?r)"
    by (simp add: adminServer1_def firstExpenseDatabase_eq seededDatabase_eq getTxn_def
          int4_def sampleRow_def)
  have nv: "\<not> noValues ?u" and ip: "intParamsOk ?u" and fit: "fitsColumns ?u"
    by (simp_all add: noValues_def intParamsOk_def fitsColumns_def emptyUpdate_def int4_def
          js_defs)
  have free: "\<not> takenByOther 1 (setColumns ?u ?r) (table Expense (storage adminServer1))"
    by (simp add: takenByOther_def adminServer1_def firstExpenseDatabase_eq seededDatabase_eq
          sampleRow_def)
  have row: "setColumns ?u ?r
      = \<lparr>id_txn = 7, slNo = ''hello'', date = ''2024-05-01'', time = ''10:30'',
         name_txn = ''Paper'', type_txn = ''Office'', detail = ''A4 sheets'',
         paymentType = ''Cash'', amount = 250, createdBy = 1\<rparr>"
    by (simp add: setColumns_def orElse_def emptyUpdate_def sampleRow_def)
  have prem: "authenticateAdmin adminServer1
      = Inr \<lparr>id_user = 1, username = ''admin'', password = ''786786'',
             name_user = ''Admin User'', role = ''admin''\<rparr>
    \<and> parseInt ''1'' = Num 1
    \<and> getTxn Expense (storage adminServer1) 1 = Inr (Some ?r)
    \<and> \<not> noValues ?u \<and> intParamsOk ?u \<and> fitsColumns ?u
    \<and> \<not> takenByOther 1 (setColumns ?u ?r) (table Expense (storage adminServer1))"
    using auth p1 g1 nv ip fit free by (intro conjI)
  have "authenticateAdmin adminServer1
      = Inr \<lparr>id_user = 1, username = ''admin'', password = ''786786'',
             name_user = ''Admin User'', role = ''admin''\<rparr>
    \<and> parseInt ''1'' = Num 1
    \<and> getTxn Expense (storage adminServer1) 1 = Inr (Some ?r)
    \<and> \<not> noValues ?u \<and> intParamsOk ?u \<and> fitsColumns ?u
    \<and> \<not> takenByOther 1 (setColumns ?u ?r) (table Expense (storage adminServer1))
    \<longrightarrow> PUT_txn Expense ''1'' ?u adminServer1 = (Response 200 (Row (setColumns ?u ?r)), ?s')
        \<and> setColumns ?u ?r
            \<in> set (map (\<lambda>x. if id_txn x = 1 then setColumns ?u ?r else x)
                     (table Expense (storage adminServer1)))"
    by (rule conjunct1 [OF update_sets_fields_verbatim_format_not_kept])
  from this prem
  have "PUT_txn Expense ''1'' ?u adminServer1 = (Response 200 (Row (setColumns ?u ?r)), ?s')
        \<and> setColumns ?u ?r
            \<in> set (map (\<lambda>x. if id_txn x = 1 then setColumns ?u ?r else x)
                     (table Expense (storage adminServer1)))"
    by (rule mp)
  then have "PUT_txn Expense ''1'' ?u adminServer1 = (Response 200 (Row (setColumns ?u ?r)), ?s')"
    by (rule conjunct1)
  then have c: "fst (PUT_txn Expense ''1'' ?u adminServer1)
      = Response 200 (Row \<lparr>id_txn = 7, slNo = ''hello'', date = ''2024-05-01'', time = ''10:30'',
                             name_txn = ''Paper'', type_txn = ''Office'', detail = ''A4 sheets'',
                             paymentType = ''Cash'', amount = 250, createdBy = 1\<rparr>)"
    by (simp only: fst_conv row)
  show ?thesis
    by (rule conjI [OF prem conjI [OF c formats(2)]])
qed

text \<open>
  Counterexample to C8 as stated. The format is not preserved by create: every stored
  slNo is well formatted, the staff member posts a valid body whose slNo is \<open>hello\<close>,
  the answer is 201 and the table now holds \<open>hello\<close>, which is not in the format. And
  update does not apply every object: the slNo of another row, an slNo of eleven
  characters and the empty object are each answered 500 and change nothing.
\<close>

theorem unformatted_slNo_accepted_by_POST:
  "list_all (\<lambda>r. slNoFormat ''EXP'' (slNo r)) (expenses (storage staffServer1))
   \<and> fst (POST_txn Expense (sampleBody ''hello'') staffServer1)
       = Response 201 (Row (sampleRow 2 ''hello'' ''2024-05-01''))
   \<and> expenses (storage (snd (POST_txn Expense (sampleBody ''hello'') staffServer1)))
       = [sampleRow 1 ''EXP001'' ''2024-05-01'', sampleRow 2 ''hello'' ''2024-05-01'']
   \<and> \<not> slNoFormat ''EXP'' ''hello''
   \<and> map slNo (expenses (storage adminServer2)) = [''EXP001'', ''EXP002'']
   \<and> PUT_txn Expense ''2'' (emptyUpdate\<lparr>tu_slNo := Some ''EXP001''\<rparr>) adminServer2
       = (Response 500 (Message ''Failed to update expense''), adminServer2)
   \<and> PUT_txn Expense ''2'' (emptyUpdate\<lparr>tu_slNo := Some ''EXP00000003''\<rparr>) adminServer2
       = (Response 500 (Message ''Failed to update expense''), adminServer2)
   \<and> PUT_txn Expense ''2'' emptyUpdate adminServer2
       = (Response 500 (Message ''Failed to update expense''), adminServer2)"
  by (simp add: staffServer1_def firstExpenseDatabase_eq adminServer2_eq seededDatabase_eq
       slNoFormat_def js_defs storage_defs route_defs sampleRow_def sampleBody_def
       emptyUpdate_def)

section \<open>The id parameter\<close>

lemma toNumber_safe: "\<bar>i\<bar> < 9007199254740992 \<Longrightarrow> toNumber i = Num i"
  by (auto simp: toNumber_def roundToDouble_def)

lemma skipWhiteSpace_plain:
  assumes "\<not> isWhiteSpace1 a" and "(of_char a :: nat) < 128"
  shows "skipWhiteSpace (a # r) = a # r"
proof -
  from assms have "whiteSpaceBytes (a # r) = 0"
    by (auto simp: isWhiteSpace3_def split: list.splits)
  then show ?thesis
    by (simp add: skipWhiteSpace.simps)
qed

lemma decimal_digit_plain:
  "isRadixDigit 10 c \<Longrightarrow>
     \<not> isWhiteSpace1 c \<and> (of_char c :: nat) < 128 \<and> c \<noteq> CHR ''-'' \<and> c \<noteq> CHR ''+''
     \<and> c \<noteq> CHR ''x'' \<and> c \<noteq> CHR ''X''"
  by (auto simp: isRadixDigit_def digitOf_def isWhiteSpace1_def Let_def split: if_splits)

lemma takeWhile_numeral:
  "numeralThenText ds t \<Longrightarrow> takeWhile (isRadixDigit 10) (ds @ t) = ds"
  by (cases t) (auto simp: numeralThenText_def list_all_iff)

lemma parseDigits_numeral:
  "numeralThenText ds t \<Longrightarrow> parseDigits 1 10 (ds @ t) = toNumber (int (mathInt 10 ds))"
  by (simp add: parseDigits_def takeWhile_numeral) (simp add: numeralThenText_def)

lemma parseRadix_numeral:
  assumes "numeralThenText ds t" and "\<not> hexPrefixed ds t"
  shows "parseRadix 1 (ds @ t) = toNumber (int (mathInt 10 ds))"
proof -
  from assms(1) obtain d ds' where ds: "ds = d # ds'" and d: "isRadixDigit 10 d"
    and ds': "list_all (isRadixDigit 10) ds'"
    by (cases ds) (auto simp: numeralThenText_def)
  have "parseRadix 1 (ds @ t) = parseDigits 1 10 (ds @ t)"
  proof (cases "ds' @ t")
    case Nil
    then show ?thesis by (simp add: parseRadix_def ds)
  next
    case (Cons b rest)
    have "\<not> (d = CHR ''0'' \<and> (b = CHR ''x'' \<or> b = CHR ''X''))"
    proof (cases ds')
      case Nil
      with Cons assms(2) ds show ?thesis by (auto simp: hexPrefixed_def)
    next
      case (Cons e es)
      with \<open>ds' @ t = b # rest\<close> ds' have "isRadixDigit 10 b" by simp
      then show ?thesis using decimal_digit_plain by blast
    qed
    with Cons show ?thesis by (auto simp: parseRadix_def ds)
  qed
  with parseDigits_numeral [OF assms(1)] show ?thesis by simp
qed

lemma parseInt_numeral:
  assumes "numeralThenText ds t" and "\<not> hexPrefixed ds t"
  shows "parseInt (ds @ t) = toNumber (int (mathInt 10 ds))"
proof -
  from assms(1) obtain d ds' where ds: "ds = d # ds'" and d: "isRadixDigit 10 d"
    by (cases ds) (auto simp: numeralThenText_def)
  from decimal_digit_plain [OF d] have "parseInt (ds @ t) = parseRadix 1 (ds @ t)"
    by (simp add: parseInt_def ds skipWhiteSpace_plain)
  with parseRadix_numeral [OF assms] show ?thesis by simp
qed

lemma numeralThenText_Nil:
  "numeralThenText ds t \<Longrightarrow> numeralThenText ds [] \<and> \<not> hexPrefixed ds []"
  by (simp add: numeralThenText_def hexPrefixed_def)

lemma parseInt_trailing_text:
  assumes "numeralThenText ds t" and "\<not> hexPrefixed ds t"
  shows "parseInt (ds @ t) = parseInt ds"
proof -
  from numeralThenText_Nil [OF assms(1)] parseInt_numeral [of ds "[]"]
  have "parseInt ds = toNumber (int (mathInt 10 ds))" by simp
  with parseInt_numeral [OF assms] show ?thesis by simp
qed

lemma takeWhile_hex:
  "hexDigitsThenText hs t \<Longrightarrow> takeWhile (isRadixDigit 16) (hs @ t) = hs"
  by (cases t) (auto simp: hexDigitsThenText_def list_all_iff)

lemma parseInt_zero_x:
  assumes "x = CHR ''x'' \<or> x = CHR ''X''" and "hexDigitsThenText hs t"
  shows "parseInt (CHR ''0'' # x # hs @ t)
           = (if hs = [] then NaN else toNumber (int (mathInt 16 hs)))"
proof -
  have "skipWhiteSpace (CHR ''0'' # x # hs @ t) = CHR ''0'' # x # hs @ t"
    by (rule skipWhiteSpace_plain) (simp_all add: isWhiteSpace1_def)
  then have "parseInt (CHR ''0'' # x # hs @ t) = parseDigits 1 16 (hs @ t)"
    using assms(1) by (auto simp: parseInt_def parseRadix_def)
  then show ?thesis
    by (simp add: parseDigits_def takeWhile_hex [OF assms(2)])
qed

lemma parseInt_skips_white_space:
  "whiteSpaceBytes s \<noteq> 0 \<Longrightarrow> parseInt s = parseInt (drop (whiteSpaceBytes s) s)"
  by (simp add: parseInt_def skipWhiteSpace.simps [of s])

lemma parseInt_no_break_space:
  "parseInt [CHR 0xC2, CHR 0xA0, CHR ''1''] = Num 1
   \<and> parseInt [CHR 0xE2, CHR 0x80, CHR 0xA8, CHR '' '', CHR ''1''] = Num 1"
  by (simp add: js_defs)

lemma bitLength_54: "bitLength 9007199254740993 = 54"
  by (simp add: bitLength.simps)

lemma parseInt_nearest_double:
  "parseInt ''9007199254740993'' = Num 9007199254740992"
  by (simp add: js_defs bitLength_54)

lemma infinite_id_500:
  "authenticateAdmin s = Inr a \<Longrightarrow> parseInt p = PlusInfinity \<or> parseInt p = MinusInfinity
     \<Longrightarrow> PUT_txn k p u s = (Response 500 (Message (''Failed to update '' @ noun k)), s)
       \<and> DELETE_txn k p s = (Response 500 (Message (''Failed to delete '' @ noun k)), s)"
  by (auto simp: PUT_txn_def DELETE_txn_def)

lemma same_id_same_answer:
  "parseInt p = parseInt q \<Longrightarrow>
     PUT_txn k p u s = PUT_txn k q u s \<and> DELETE_txn k p s = DELETE_txn k q s"
  by (auto simp: PUT_txn_def DELETE_txn_def split: sum.splits)

lemma PUT_400_iff:
  "authenticateAdmin s = Inr a \<Longrightarrow>
     (\<exists>b. fst (PUT_txn k p u s) = Response 400 b) = (parseInt p = NaN)"
  by (auto simp: PUT_txn_def split: jsnum.splits sum.splits option.splits prod.splits)

lemma DELETE_400_iff:
  "authenticateAdmin s = Inr a \<Longrightarrow>
     (\<exists>b. fst (DELETE_txn k p s) = Response 400 b) = (parseInt p = NaN)"
  by (auto simp: DELETE_txn_def split: jsnum.splits sum.splits option.splits prod.splits)

text \<open>
  C9, amended (PUT and DELETE reject an id with 400 only when parseInt gives NaN; a
  decimal numeral followed by other text targets the record of the numeral; a
  parameter that begins with 0x is read in radix 16): for an admin session, PUT and
  DELETE answer 400 exactly when \<open>parseInt\<close> of the parameter is NaN; for a parameter made
  of decimal digits followed by text that does not go on with a digit, unless the
  parameter begins with \<open>0x\<close> or \<open>0X\<close>, \<open>parseInt\<close> is the value of the digits (as a
  double) and PUT and DELETE do exactly what they do for the digits alone; for every
  parameter that begins with \<open>0x\<close> or \<open>0X\<close>, \<open>parseInt\<close> is the value in radix 16 of the
  hexadecimal digits that follow the prefix, and NaN when none follows; two parameters
  with the same \<open>parseInt\<close> get the same answer from PUT and from DELETE; and the double
  of an integer below \<open>2^53\<close> in magnitude is that integer.
\<close>

theorem id_parameter_parsed_leniently:
  "(authenticateAdmin s = Inr a \<longrightarrow>
       ((\<exists>b. fst (PUT_txn k p u s) = Response 400 b) = (parseInt p = NaN))
     \<and> ((\<exists>b. fst (DELETE_txn k p s) = Response 400 b) = (parseInt p = NaN)))
   \<and> (numeralThenText ds t \<and> \<not> hexPrefixed ds t \<longrightarrow>
        parseInt (ds @ t) = toNumber (int (mathInt 10 ds))
        \<and> PUT_txn k (ds @ t) u s = PUT_txn k ds u s
        \<and> DELETE_txn k (ds @ t) s = DELETE_txn k ds s)
   \<and> ((x = CHR ''x'' \<or> x = CHR ''X'') \<and> hexDigitsThenText hs ht \<longrightarrow>
        parseInt (CHR ''0'' # x # hs @ ht)
          = (if hs = [] then NaN else toNumber (int (mathInt 16 hs))))
   \<and> (parseInt pa = parseInt pb \<longrightarrow>
        PUT_txn k pa u s = PUT_txn k pb u s \<and> DELETE_txn k pa s = DELETE_txn k pb s)
   \<and> (\<bar>i\<bar> < 9007199254740992 \<longrightarrow> toNumber i = Num i)"
proof (intro conjI impI)
  assume "authenticateAdmin s = Inr a"
  then show "(\<exists>b. fst (PUT_txn k p u s) = Response 400 b) = (parseInt p = NaN)"
    and "(\<exists>b. fst (DELETE_txn k p s) = Response 400 b) = (parseInt p = NaN)"
    by (rule PUT_400_iff, rule DELETE_400_iff)
next
  assume h: "numeralThenText ds t \<and> \<not> hexPrefixed ds t"
  then show "parseInt (ds @ t) = toNumber (int (mathInt 10 ds))"
    by (simp add: parseInt_numeral)
  from h have "parseInt (ds @ t) = parseInt ds"
    by (simp add: parseInt_trailing_text)
  then show "PUT_txn k (ds @ t) u s = PUT_txn k ds u s"
    and "DELETE_txn k (ds @ t) s = DELETE_txn k ds s"
    using same_id_same_answer [of "ds @ t" ds k u s] by blast+
next
  assume "(x = CHR ''x'' \<or> x = CHR ''X'') \<and> hexDigitsThenText hs ht"
  then show "parseInt (CHR ''0'' # x # hs @ ht)
          = (if hs = [] then NaN else toNumber (int (mathInt 16 hs)))"
    using parseInt_zero_x [of x hs ht] by simp
next
  assume "parseInt pa = parseInt pb"
  then show "PUT_txn k pa u s = PUT_txn k pb u s" and "DELETE_txn k pa s = DELETE_txn k pb s"
    using same_id_same_answer [of pa pb k u s] by blast+
next
  assume "\<bar>i\<bar> < 9007199254740992"
  then show "toNumber i = Num i"
    by (rule toNumber_safe)
qed

text \<open>
  Witness for C9: \<open>1abc\<close> is treated as \<open>1\<close>, \<open>abc\<close> is answered 400, \<open>0x1f\<close> is
  treated as \<open>31\<close>, and \<open>0x\<close> followed by \<open>yz\<close> is NaN.
\<close>

theorem id_parameter_parsed_leniently_witness:
  "numeralThenText ''1'' ''abc'' \<and> \<not> hexPrefixed ''1'' ''abc''
   \<and> parseInt ''1abc'' = Num 1
   \<and> PUT_txn Expense ''1abc'' (emptyUpdate\<lparr>tu_name := Some ''Ink''\<rparr>) adminServer1
       = PUT_txn Expense ''1'' (emptyUpdate\<lparr>tu_name := Some ''Ink''\<rparr>) adminServer1
   \<and> DELETE_txn Expense ''1abc'' adminServer1 = DELETE_txn Expense ''1'' adminServer1
   \<and> parseInt ''abc'' = NaN
   \<and> (\<exists>b. fst (PUT_txn Expense ''abc'' (emptyUpdate\<lparr>tu_name := Some ''Ink''\<rparr>) adminServer1)
            = Response 400 b)
   \<and> hexDigitsThenText ''1f'' [] \<and> parseInt ''0x1f'' = Num 31 \<and> parseInt ''31'' = Num 31
   \<and> PUT_txn Expense ''0x1f'' (emptyUpdate\<lparr>tu_name := Some ''Ink''\<rparr>) adminServer1
       = PUT_txn Expense ''31'' (emptyUpdate\<lparr>tu_name := Some ''Ink''\<rparr>) adminServer1
   \<and> hexDigitsThenText [] ''yz'' \<and> parseInt ''0xyz'' = NaN"
proof -
  let ?u = "emptyUpdate\<lparr>tu_name := Some ''Ink''\<rparr>"
  note auth = authenticateAdmin_adminServer1
  have n: "numeralThenText ''1'' ''abc''" "\<not> hexPrefixed ''1'' ''abc''"
    by (simp_all add: numeralThenText_def hexPrefixed_def isRadixDigit_def digitOf_def)
  have hx: "hexDigitsThenText ''1f'' []" "hexDigitsThenText [] ''yz''"
    by (simp_all add: hexDigitsThenText_def isRadixDigit_def digitOf_def)
  have m: "mathInt 10 ''1'' = 1" "mathInt 16 ''1f'' = 31"
    by (simp_all add: mathInt_def digitValue_def digitOf_def)
  have nan: "parseInt ''abc'' = NaN" and p31: "parseInt ''31'' = Num 31"
    by (simp_all add: js_defs)
  note T1 = id_parameter_parsed_leniently
    [where s = adminServer1 and k = Expense and p = "''abc''" and u = ?u
       and ds = "''1''" and t = "''abc''" and x = "CHR ''x''" and hs = "''1f''" and ht = "[]"
       and pa = "''0x1f''" and pb = "''31''" and i = 31]
  note T2 = id_parameter_parsed_leniently
    [where x = "CHR ''x''" and hs = "[]" and ht = "''yz''" and i = 1]
  have d: "parseInt ''1abc'' = Num 1
      \<and> PUT_txn Expense ''1abc'' ?u adminServer1 = PUT_txn Expense ''1'' ?u adminServer1
      \<and> DELETE_txn Expense ''1abc'' adminServer1 = DELETE_txn Expense ''1'' adminServer1"
    using T1 [THEN conjunct2, THEN conjunct1] n m T2 [THEN conjunct2, THEN conjunct2,
      THEN conjunct2, THEN conjunct2] by simp
  have e: "\<exists>b. fst (PUT_txn Expense ''abc'' ?u adminServer1) = Response 400 b"
    using T1 [THEN conjunct1] auth nan by simp
  have h: "parseInt ''0x1f'' = Num 31"
    using T1 [THEN conjunct2, THEN conjunct2, THEN conjunct1] hx m
      T1 [THEN conjunct2, THEN conjunct2, THEN conjunct2, THEN conjunct2] by simp
  have g: "PUT_txn Expense ''0x1f'' ?u adminServer1 = PUT_txn Expense ''31'' ?u adminServer1"
    using T1 [THEN conjunct2, THEN conjunct2, THEN conjunct2, THEN conjunct1] h p31 by simp
  have z: "parseInt ''0xyz'' = NaN"
    using T2 [THEN conjunct2, THEN conjunct2, THEN conjunct1] hx by simp
  from n d nan e hx h p31 g z show ?thesis
    by simp
qed

text \<open>
  Counterexample to C9 as stated: \<open>0xyz\<close> is the decimal numeral \<open>0\<close> followed by
  text, yet it is rejected with 400; and \<open>0x1\<close> is read in radix 16, so it targets
  record 1, not record 0.
\<close>

theorem zero_x_id_rejected_or_hexadecimal:
  "numeralThenText ''0'' ''xyz''
   \<and> fst (PUT_txn Expense ''0xyz'' (emptyUpdate\<lparr>tu_name := Some ''Ink''\<rparr>) adminServer1)
       = Response 400 (Message ''Invalid expense ID'')
   \<and> numeralThenText ''0'' ''x1''
   \<and> fst (PUT_txn Expense ''0x1'' (emptyUpdate\<lparr>tu_name := Some ''Ink''\<rparr>) adminServer1)
       = Response 200 (Row ((sampleRow 1 ''EXP001'' ''2024-05-01'')\<lparr>name_txn := ''Ink''\<rparr>))"
  by (simp add: adminServer1_def firstExpenseDatabase_eq seededDatabase_eq numeralThenText_def
       js_defs storage_defs route_defs sampleRow_def emptyUpdate_def)

end
